theory Spec2Isabelle
  imports Main "HOL-Library.List_Lexorder" "HOL-Library.Char_ord"
begin

section \<open>Python values and the collaborators' interface\<close>

text \<open>
  The runners of \<^verbatim>\<open>autora/experiment_runner/firebase_prolific/__init__.py\<close> pass
  dynamically typed values between the caller's configuration, the experiment host
  (firebase) and the recruitment platform (prolific). The values that the module
  inspects are those of a decoded JSON document, modelled by \<open>pyval\<close>; a dict keeps
  its insertion order as an association list. Python strings are compared by code point, which on
  UTF-8 bytes is the lexicographic order of \<open>char list\<close>.
\<close>

datatype pyval =
    PNone
  | PBool bool
  | PInt int
  | PStr string
  | PList "pyval list"
  | PDict "(string \<times> pyval) list"

datatype error = KeyError | TypeError | ValueError | OverflowError | UnboundLocalError

type_synonym dict = "(string \<times> pyval) list"

text \<open>Truth value of an object, as tested by \<^verbatim>\<open>if prolific_dict:\<close>.\<close>

fun truthy :: "pyval \<Rightarrow> bool" where
  "truthy PNone = False"
| "truthy (PBool b) = b"
| "truthy (PInt i) = (i \<noteq> 0)"
| "truthy (PStr s) = (s \<noteq> [])"
| "truthy (PList l) = (l \<noteq> [])"
| "truthy (PDict d) = (d \<noteq> [])"

text \<open>Subscription \<^verbatim>\<open>obj["key"]\<close> with a string key.\<close>

fun getitem :: "pyval \<Rightarrow> string \<Rightarrow> error + pyval" where
  "getitem (PDict d) k = (case map_of d k of None \<Rightarrow> Inl KeyError | Some v \<Rightarrow> Inr v)"
| "getitem PNone k = Inl TypeError"
| "getitem (PBool b) k = Inl TypeError"
| "getitem (PInt i) k = Inl TypeError"
| "getitem (PStr s) k = Inl TypeError"
| "getitem (PList l) k = Inl TypeError"

text \<open>The product \<^verbatim>\<open>v * 60\<close>: arithmetic on numbers, repetition on sequences.\<close>

fun times60 :: "pyval \<Rightarrow> error + pyval" where
  "times60 (PInt i) = Inr (PInt (i * 60))"
| "times60 (PBool b) = Inr (PInt (if b then 60 else 0))"
| "times60 (PStr s) = Inr (PStr (concat (replicate 60 s)))"
| "times60 (PList l) = Inr (PList (concat (replicate 60 l)))"
| "times60 PNone = Inl TypeError"
| "times60 (PDict d) = Inl TypeError"

text \<open>
  \<^verbatim>\<open>time.sleep(secs)\<close> returns for a number of seconds that is not negative and
  fits the clock of the interpreter (CPython counts nanoseconds in 64 bits), and raises
  otherwise; \<open>None\<close> is the call that returns.
\<close>

fun time_sleep :: "pyval \<Rightarrow> error option" where
  "time_sleep (PInt i) =
     (if i < 0 then Some ValueError
      else if i > 9223372036 then Some OverflowError
      else None)"
| "time_sleep (PBool b) = None"
| "time_sleep PNone = Some TypeError"
| "time_sleep (PStr s) = Some TypeError"
| "time_sleep (PList l) = Some TypeError"
| "time_sleep (PDict d) = Some TypeError"

text \<open>
  \<^verbatim>\<open>**kwargs\<close>: the configuration bound by the runner factories. The keys read by
  either runner are fields; a complete configuration is assumed.
\<close>

record kwargs =
  firebase_credentials :: pyval
  time_out :: pyval
  sleep_time :: pyval
  study_name :: pyval
  study_description :: pyval
  study_url :: pyval
  study_completion_time :: pyval
  prolific_token :: pyval
  completion_code :: pyval

text \<open>
  The dict answered by \<^verbatim>\<open>check_prolific_status\<close>, with the three entries the runner
  reads. The collaborator is imported, not defined, by the module; its answer has the
  fields of the interface \<open>recruiterStatus\<close>.
\<close>

record check_prolific =
  status :: string
  number_of_submissions :: int
  total_available_places :: int

text \<open>
  What the two remote platforms answer. Each of the polled operations is called at most
  once per iteration of a poll loop, so its answers are indexed by the iteration
  (counted from 0). \<^verbatim>\<open>setup_study\<close> is called once. Any sequence of answers is a
  world, so a statement for all worlds covers platforms whose answers depend on the calls
  made before. The runners catch no exception: a call to a platform that raises ends the
  run at that call, and the answers here are those of calls that return.
\<close>

record world =
  setup_study_answer :: pyval
  check_firebase_status_answer :: "nat \<Rightarrow> string"
  check_prolific_status_answer :: "nat \<Rightarrow> check_prolific"
  get_observations_answer :: "nat \<Rightarrow> dict"

text \<open>
  The calls a run makes, with their arguments in the order of the source;
  \<open>total_available_places\<close> is the \<^verbatim>\<open>len\<close> of the conditions.
  \<^verbatim>\<open>time.sleep\<close> is recorded as a call, also when it raises.
\<close>

datatype call =
    Send_conditions string "pyval list" pyval
  | Check_firebase_status string pyval pyval
  | Get_observations string pyval
  | Setup_study pyval pyval pyval pyval pyval nat pyval
  | Check_prolific_status pyval pyval
  | Publish_study pyval pyval
  | Start_study pyval pyval
  | Pause_study pyval pyval
  | Sleep pyval

text \<open>
  How an iteration of \<^verbatim>\<open>while True:\<close> ends: it falls through to the next iteration
  (with the local variables it leaves behind), returns, or raises.
\<close>

datatype 'st step = Continue 'st | Return "pyval list" | Raise error

text \<open>
  How a run stands after a bounded number of iterations: it has returned, it has raised,
  or it is still polling.
\<close>

datatype outcome = Returned "pyval list" | Raised error | Polling

record run =
  setup_calls :: "call list"
  ticks :: "call list list"
  outcome :: outcome

definition trace :: "run \<Rightarrow> call list" where
  "trace r = setup_calls r @ concat (ticks r)"

section \<open>Aggregation of the observations\<close>

text \<open>
  \<^verbatim>\<open>observation_list = [observation[key] for key in sorted(observation.keys())]\<close>
\<close>

definition keys :: "dict \<Rightarrow> string list" where
  "keys d = map fst d"

definition dict_getitem :: "dict \<Rightarrow> string \<Rightarrow> error + pyval" where
  "dict_getitem d k = (case map_of d k of None \<Rightarrow> Inl KeyError | Some v \<Rightarrow> Inr v)"

fun comprehension :: "dict \<Rightarrow> string list \<Rightarrow> error + pyval list" where
  "comprehension observation [] = Inr []"
| "comprehension observation (key # ks) =
     (case dict_getitem observation key of
        Inl e \<Rightarrow> Inl e
      | Inr v \<Rightarrow> (case comprehension observation ks of
                    Inl e \<Rightarrow> Inl e
                  | Inr vs \<Rightarrow> Inr (v # vs)))"

definition observation_list :: "dict \<Rightarrow> error + pyval list" where
  "observation_list observation = comprehension observation (sort (keys observation))"

section \<open>The poll loop\<close>

text \<open>
  \<^verbatim>\<open>while True:\<close> run for at most \<open>fuel\<close> iterations, starting with iteration \<open>n\<close>.
  The calls of each iteration are kept apart, so that a property of one tick can be read
  off the run.
\<close>

fun poll_loop ::
  "(nat \<Rightarrow> 'st \<Rightarrow> call list \<times> 'st step) \<Rightarrow> nat \<Rightarrow> nat \<Rightarrow> 'st \<Rightarrow> call list list \<times> outcome"
where
  "poll_loop body 0 n st = ([], Polling)"
| "poll_loop body (Suc fuel) n st =
     (case body n st of
        (ev, Continue st') \<Rightarrow>
          (case poll_loop body fuel (Suc n) st' of (evs, out) \<Rightarrow> (ev # evs, out))
      | (ev, Return l) \<Rightarrow> ([ev], Returned l)
      | (ev, Raise e) \<Rightarrow> ([ev], Raised e))"

section \<open>The host-only runner\<close>

text \<open>One iteration of the loop of \<^verbatim>\<open>_firebase_run\<close> (lines 35 to 42).\<close>

definition firebase_iteration :: "kwargs \<Rightarrow> world \<Rightarrow> nat \<Rightarrow> unit \<Rightarrow> call list \<times> unit step" where
  "firebase_iteration kw w n u =
     (let check_firebase = check_firebase_status_answer w n;
          ev = [Check_firebase_status ''autora'' (firebase_credentials kw) (time_out kw)]
      in if check_firebase = ''finished''
         then (let observation = get_observations_answer w n;
                   ev' = ev @ [Get_observations ''autora'' (firebase_credentials kw)]
               in case observation_list observation of
                    Inl e \<Rightarrow> (ev', Raise e)
                  | Inr l \<Rightarrow> (ev', Return l))
         else (case time_sleep (sleep_time kw) of
                 Some e \<Rightarrow> (ev @ [Sleep (sleep_time kw)], Raise e)
               | None \<Rightarrow> (ev @ [Sleep (sleep_time kw)], Continue ())))"

definition firebase_run :: "pyval list \<Rightarrow> kwargs \<Rightarrow> world \<Rightarrow> nat \<Rightarrow> run" where
  "firebase_run conditions kw w fuel =
     (let setup = [Send_conditions ''autora'' conditions (firebase_credentials kw)]
      in case poll_loop (firebase_iteration kw w) fuel 0 () of
           (evs, out) \<Rightarrow> \<lparr>setup_calls = setup, ticks = evs, outcome = out\<rparr>)"

section \<open>The combined runner\<close>

text \<open>
  Lines 72 and 73: the time-out and the study id are read off the answer of
  \<^verbatim>\<open>setup_study\<close>.
\<close>

definition campaign_specification :: "pyval \<Rightarrow> error + (pyval \<times> pyval)" where
  "campaign_specification prolific_dict =
     (case getitem prolific_dict ''maximum_allowed_time'' of
        Inl e \<Rightarrow> Inl e
      | Inr m \<Rightarrow>
          (case times60 m of
             Inl e \<Rightarrow> Inl e
           | Inr t \<Rightarrow>
               (case getitem prolific_dict ''id'' of
                  Inl e \<Rightarrow> Inl e
                | Inr i \<Rightarrow> Inr (t, i))))"

text \<open>
  Lines 95 to 103 and 104 to 108. The variable \<^verbatim>\<open>check_prolific\<close> is local to the
  function and assigned only under \<^verbatim>\<open>if prolific_dict:\<close>; reading it unassigned
  raises.
\<close>

definition available_branch ::
  "kwargs \<Rightarrow> pyval \<Rightarrow> check_prolific option \<Rightarrow> call list \<times> error option" where
  "available_branch kw study_id cp =
     (case cp of
        None \<Rightarrow> ([], Some UnboundLocalError)
      | Some c \<Rightarrow>
          ((if status c = ''UNPUBLISHED''
            then [Publish_study study_id (prolific_token kw)] else []) @
           (if status c = ''PAUSED''
            then [Start_study study_id (prolific_token kw)] else []), None))"

definition unavailable_branch ::
  "kwargs \<Rightarrow> pyval \<Rightarrow> check_prolific option \<Rightarrow> call list \<times> error option" where
  "unavailable_branch kw study_id cp =
     (case cp of
        None \<Rightarrow> ([], Some UnboundLocalError)
      | Some c \<Rightarrow>
          ((if status c = ''STARTED''
            then [Pause_study study_id (prolific_token kw)] else []), None))"

text \<open>
  Lines 91 to 109: the tests on the host status in sequence, then the sleep, which may
  raise. The first test, for \<open>finished\<close>, guards a \<^verbatim>\<open>pass\<close> and is left out.
\<close>

definition places_available ::
  "kwargs \<Rightarrow> pyval \<Rightarrow> string \<Rightarrow> check_prolific option \<Rightarrow> call list \<times> error option" where
  "places_available kw study_id check_firebase cp =
     (case (if check_firebase = ''available''
            then available_branch kw study_id cp else ([], None)) of
        (ev1, Some e) \<Rightarrow> (ev1, Some e)
      | (ev1, None) \<Rightarrow>
          (case (if check_firebase = ''unavailable''
                 then unavailable_branch kw study_id cp else ([], None)) of
             (ev2, Some e) \<Rightarrow> (ev1 @ ev2, Some e)
           | (ev2, None) \<Rightarrow>
               (ev1 @ ev2 @ [Sleep (sleep_time kw)], time_sleep (sleep_time kw))))"

text \<open>
  Lines 91 to 109 as they follow the check of the recruitment platform: the actions, then
  the next iteration with \<^verbatim>\<open>check_prolific\<close> as it stands.
\<close>

definition rest_of_iteration ::
  "kwargs \<Rightarrow> pyval \<Rightarrow> string \<Rightarrow> call list \<Rightarrow> check_prolific option
     \<Rightarrow> call list \<times> check_prolific option step" where
  "rest_of_iteration kw study_id check_firebase ev cp =
     (case places_available kw study_id check_firebase cp of
        (ev', Some e) \<Rightarrow> (ev @ ev', Raise e)
      | (ev', None) \<Rightarrow> (ev @ ev', Continue cp))"

text \<open>
  One iteration of the loop of \<^verbatim>\<open>_firebase_prolific_run\<close> (lines 75 to 109);
  \<open>cp0\<close> is the variable \<^verbatim>\<open>check_prolific\<close> as the previous iteration left it.
\<close>

definition prolific_iteration ::
  "kwargs \<Rightarrow> world \<Rightarrow> pyval \<Rightarrow> pyval \<Rightarrow> pyval \<Rightarrow> nat \<Rightarrow> check_prolific option
     \<Rightarrow> call list \<times> check_prolific option step" where
  "prolific_iteration kw w prolific_dict timeout study_id n cp0 =
     (let check_firebase = check_firebase_status_answer w n;
          ev = [Check_firebase_status ''autora'' (firebase_credentials kw) timeout]
      in if truthy prolific_dict
         then (let cp = check_prolific_status_answer w n;
                   ev1 = ev @ [Check_prolific_status study_id (prolific_token kw)]
               in if number_of_submissions cp \<ge> total_available_places cp
                     \<and> check_firebase = ''finished''
                  then (let observation = get_observations_answer w n;
                            ev2 = ev1 @ [Get_observations ''autora'' (firebase_credentials kw)]
                        in case observation_list observation of
                             Inl e \<Rightarrow> (ev2, Raise e)
                           | Inr l \<Rightarrow> (ev2, Return l))
                  else rest_of_iteration kw study_id check_firebase ev1 (Some cp))
         else rest_of_iteration kw study_id check_firebase ev cp0)"

definition firebase_prolific_run :: "pyval list \<Rightarrow> kwargs \<Rightarrow> world \<Rightarrow> nat \<Rightarrow> run" where
  "firebase_prolific_run conditions kw w fuel =
     (let setup =
            [Send_conditions ''autora'' conditions (firebase_credentials kw),
             Setup_study (study_name kw) (study_description kw) (study_url kw)
               (study_completion_time kw) (prolific_token kw) (length conditions)
               (completion_code kw)];
          prolific_dict = setup_study_answer w
      in case campaign_specification prolific_dict of
           Inl e \<Rightarrow> \<lparr>setup_calls = setup, ticks = [], outcome = Raised e\<rparr>
         | Inr (timeout, study_id) \<Rightarrow>
             (case poll_loop (prolific_iteration kw w prolific_dict timeout study_id) fuel 0 None of
                (evs, out) \<Rightarrow> \<lparr>setup_calls = setup, ticks = evs, outcome = out\<rparr>))"

section \<open>Notions used by the properties\<close>

text \<open>The two halves of the completion test of the combined runner (lines 84 and 85).\<close>

definition submissions_reached :: "world \<Rightarrow> nat \<Rightarrow> bool" where
  "submissions_reached w n =
     (number_of_submissions (check_prolific_status_answer w n)
        \<ge> total_available_places (check_prolific_status_answer w n))"

definition host_finished :: "world \<Rightarrow> nat \<Rightarrow> bool" where
  "host_finished w n = (check_firebase_status_answer w n = ''finished'')"

text \<open>The values of a dict in the sorted order of its keys.\<close>

definition sorted_values :: "dict \<Rightarrow> pyval list" where
  "sorted_values d = map (\<lambda>k. the (map_of d k)) (sort (keys d))"

text \<open>Classification of the calls.\<close>

datatype action = Publish | Start | Pause

fun action_of :: "call \<Rightarrow> action option" where
  "action_of (Publish_study i t) = Some Publish"
| "action_of (Start_study i t) = Some Start"
| "action_of (Pause_study i t) = Some Pause"
| "action_of c = None"

definition is_recruiter_action :: "call \<Rightarrow> bool" where
  "is_recruiter_action c = (action_of c \<noteq> None)"

fun is_recruiter_call :: "call \<Rightarrow> bool" where
  "is_recruiter_call (Setup_study a b c d e f g) = True"
| "is_recruiter_call (Check_prolific_status i t) = True"
| "is_recruiter_call (Publish_study i t) = True"
| "is_recruiter_call (Start_study i t) = True"
| "is_recruiter_call (Pause_study i t) = True"
| "is_recruiter_call c = False"

fun is_get_observations :: "call \<Rightarrow> bool" where
  "is_get_observations (Get_observations ns c) = True"
| "is_get_observations c = False"

fun is_setup_study :: "call \<Rightarrow> bool" where
  "is_setup_study (Setup_study a b c d e f g) = True"
| "is_setup_study c = False"

text \<open>The namespace argument of a call to the host client, the time-out of a status poll.\<close>

fun host_namespace :: "call \<Rightarrow> string option" where
  "host_namespace (Send_conditions ns c cr) = Some ns"
| "host_namespace (Check_firebase_status ns cr t) = Some ns"
| "host_namespace (Get_observations ns cr) = Some ns"
| "host_namespace c = None"

fun poll_timeout :: "call \<Rightarrow> pyval option" where
  "poll_timeout (Check_firebase_status ns cr t) = Some t"
| "poll_timeout c = None"

text \<open>
  The precedence table of the Reconciler, as the specification words it: the first row
  that matches the pair of host status and campaign status gives the action, and a pair
  that matches no row gives none.
\<close>

definition precedence_table :: "string \<Rightarrow> string \<Rightarrow> action option" where
  "precedence_table h s =
     (if h = ''available'' \<and> s = ''UNPUBLISHED'' then Some Publish
      else if h = ''available'' \<and> s = ''PAUSED'' then Some Start
      else if h = ''unavailable'' \<and> s = ''STARTED'' then Some Pause
      else None)"

fun action_calls :: "kwargs \<Rightarrow> pyval \<Rightarrow> action option \<Rightarrow> call list" where
  "action_calls kw study_id None = []"
| "action_calls kw study_id (Some Publish) = [Publish_study study_id (prolific_token kw)]"
| "action_calls kw study_id (Some Start) = [Start_study study_id (prolific_token kw)]"
| "action_calls kw study_id (Some Pause) = [Pause_study study_id (prolific_token kw)]"

text \<open>The calls of one tick of either runner, told from the answers read in that tick.\<close>

definition firebase_tick :: "kwargs \<Rightarrow> world \<Rightarrow> nat \<Rightarrow> call list" where
  "firebase_tick kw w n =
     Check_firebase_status ''autora'' (firebase_credentials kw) (time_out kw) #
     (if host_finished w n
      then [Get_observations ''autora'' (firebase_credentials kw)]
      else [Sleep (sleep_time kw)])"

definition prolific_tick :: "kwargs \<Rightarrow> world \<Rightarrow> pyval \<Rightarrow> pyval \<Rightarrow> nat \<Rightarrow> call list" where
  "prolific_tick kw w timeout study_id n =
     [Check_firebase_status ''autora'' (firebase_credentials kw) timeout,
      Check_prolific_status study_id (prolific_token kw)] @
     (if submissions_reached w n \<and> host_finished w n
      then [Get_observations ''autora'' (firebase_credentials kw)]
      else action_calls kw study_id
             (precedence_table (check_firebase_status_answer w n)
                (status (check_prolific_status_answer w n)))
           @ [Sleep (sleep_time kw)])"

text \<open>How a tick that does not return ends: as the sleep of the configuration does.\<close>

definition after_sleep :: "kwargs \<Rightarrow> 'st \<Rightarrow> 'st step" where
  "after_sleep kw st =
     (case time_sleep (sleep_time kw) of None \<Rightarrow> Continue st | Some e \<Rightarrow> Raise e)"

text \<open>The calls either runner makes before it enters its loop.\<close>

definition firebase_setup :: "pyval list \<Rightarrow> kwargs \<Rightarrow> call list" where
  "firebase_setup conditions kw =
     [Send_conditions ''autora'' conditions (firebase_credentials kw)]"

definition prolific_setup :: "pyval list \<Rightarrow> kwargs \<Rightarrow> call list" where
  "prolific_setup conditions kw =
     [Send_conditions ''autora'' conditions (firebase_credentials kw),
      Setup_study (study_name kw) (study_description kw) (study_url kw)
        (study_completion_time kw) (prolific_token kw) (length conditions)
        (completion_code kw)]"

section \<open>Concrete scenarios\<close>

text \<open>
  A configuration and four worlds on which the theorems below are exercised. In
  \<open>example_world\<close> the host answers available, available, finished, and the campaign of
  two places goes from UNPUBLISHED to STARTED and has its two submissions at the third
  poll. In \<open>short_world\<close> the batch is complete at the first poll and the host holds one
  observation. In \<open>other_world\<close> the host
  is unavailable, then available, while the campaign is STARTED, then PAUSED, then
  UNPUBLISHED. In \<open>failed_setup_world\<close> the recruitment platform answers
  \<^verbatim>\<open>setup_study\<close> with \<^verbatim>\<open>False\<close>.
\<close>

definition example_kwargs :: kwargs where
  "example_kwargs =
     \<lparr>firebase_credentials = PStr ''cred'', time_out = PInt 100, sleep_time = PInt 3,
      study_name = PStr ''study'', study_description = PStr ''text'',
      study_url = PStr ''url'', study_completion_time = PInt 5,
      prolific_token = PStr ''token'', completion_code = PStr ''code''\<rparr>"

definition example_world :: world where
  "example_world =
     \<lparr>setup_study_answer = PDict [(''id'', PStr ''s1''), (''maximum_allowed_time'', PInt 7)],
      check_firebase_status_answer = (\<lambda>n. if n < 2 then ''available'' else ''finished''),
      check_prolific_status_answer =
        (\<lambda>n. \<lparr>status = (if n = 0 then ''UNPUBLISHED'' else ''STARTED''),
              number_of_submissions = int n, total_available_places = 2\<rparr>),
      get_observations_answer = (\<lambda>n. [(''B'', PStr ''Y''), (''A'', PStr ''X'')])\<rparr>"

definition short_world :: world where
  "short_world =
     \<lparr>setup_study_answer = PDict [(''id'', PStr ''s1''), (''maximum_allowed_time'', PInt 7)],
      check_firebase_status_answer = (\<lambda>n. ''finished''),
      check_prolific_status_answer =
        (\<lambda>n. \<lparr>status = ''STARTED'', number_of_submissions = 2, total_available_places = 2\<rparr>),
      get_observations_answer = (\<lambda>n. [(''A'', PStr ''X'')])\<rparr>"

definition other_world :: world where
  "other_world =
     \<lparr>setup_study_answer = PDict [(''maximum_allowed_time'', PInt 30), (''id'', PStr ''s2'')],
      check_firebase_status_answer = (\<lambda>n. if n = 0 then ''unavailable'' else ''available''),
      check_prolific_status_answer =
        (\<lambda>n. \<lparr>status = (if n = 0 then ''STARTED'' else if n = 1 then ''PAUSED''
                         else ''UNPUBLISHED''),
              number_of_submissions = 0, total_available_places = 1\<rparr>),
      get_observations_answer = (\<lambda>n. [])\<rparr>"

definition failed_setup_world :: world where
  "failed_setup_world = example_world\<lparr>setup_study_answer := PBool False\<rparr>"


section \<open>The iterations and the loop, told from the answers\<close>

lemma comprehension_values:
  "set ks \<subseteq> set (keys d) \<Longrightarrow> comprehension d ks = Inr (map (\<lambda>k. the (map_of d k)) ks)"
proof (induction ks)
  case Nil
  then show ?case by simp
next
  case (Cons k ks)
  from Cons.prems have "k \<in> fst ` set d" by (simp add: keys_def)
  then obtain v where "map_of d k = Some v"
    by (metis domD dom_map_of_conv_image_fst)
  with Cons show ?case by (simp add: dict_getitem_def)
qed

lemma observation_list_sorted_values: "observation_list d = Inr (sorted_values d)"
  unfolding observation_list_def sorted_values_def
  by (rule comprehension_values) simp

lemma getitem_Inr_truthy: "getitem pd k = Inr v \<Longrightarrow> truthy pd"
  by (cases pd) (auto split: option.splits)

lemma campaign_specification_truthy:
  "campaign_specification pd = Inr (t, i) \<Longrightarrow> truthy pd"
  by (auto simp: campaign_specification_def split: sum.splits dest: getitem_Inr_truthy)

lemma firebase_iteration_eq:
  "firebase_iteration kw w n u =
     (firebase_tick kw w n,
      if host_finished w n then Return (sorted_values (get_observations_answer w n))
      else after_sleep kw ())"
  by (simp add: firebase_iteration_def firebase_tick_def host_finished_def Let_def
      observation_list_sorted_values after_sleep_def split: option.split)

lemma places_available_eq:
  "places_available kw i h (Some c) =
     (action_calls kw i (precedence_table h (status c)) @ [Sleep (sleep_time kw)],
      time_sleep (sleep_time kw))"
  by (simp add: places_available_def available_branch_def unavailable_branch_def
      precedence_table_def)

lemma prolific_iteration_eq:
  "truthy pd \<Longrightarrow>
   prolific_iteration kw w pd t i n cp0 =
     (prolific_tick kw w t i n,
      if submissions_reached w n \<and> host_finished w n
      then Return (sorted_values (get_observations_answer w n))
      else after_sleep kw (Some (check_prolific_status_answer w n)))"
  by (simp add: prolific_iteration_def prolific_tick_def rest_of_iteration_def Let_def
      places_available_eq submissions_reached_def host_finished_def
      observation_list_sorted_values after_sleep_def split: option.split)

lemma upt_shift: "n # [Suc n..<Suc n + m] = [n..<n + Suc m]"
  by (simp del: upt_Suc add: upt_conv_Cons)

lemma poll_loop_Continue:
  "body n st = (ev, Continue st') \<Longrightarrow>
   poll_loop body (Suc fuel) n st =
     (ev # fst (poll_loop body fuel (Suc n) st'), snd (poll_loop body fuel (Suc n) st'))"
  by (simp add: case_prod_beta)

lemma poll_loop_Return:
  "body n st = (ev, Return l) \<Longrightarrow> poll_loop body (Suc fuel) n st = ([ev], Returned l)"
  by simp

lemma poll_loop_polling:
  assumes body: "\<And>m s. body m s = (E m, if C m then Return (L m) else Continue (S m))"
  shows "(\<forall>k<fuel. \<not> C (n + k)) \<Longrightarrow>
         poll_loop body fuel n st = (map E [n..<n + fuel], Polling)"
proof (induction fuel arbitrary: n st)
  case 0
  then show ?case by simp
next
  case (Suc fuel)
  from Suc.prems have "\<not> C n" by force
  then have step: "body n st = (E n, Continue (S n))" by (simp add: body)
  from Suc.prems have "\<forall>k<fuel. \<not> C (Suc n + k)" by force
  then have "poll_loop body fuel (Suc n) (S n) = (map E [Suc n..<Suc n + fuel], Polling)"
    by (rule Suc.IH)
  then have "poll_loop body (Suc fuel) n st = (map E (n # [Suc n..<Suc n + fuel]), Polling)"
    by (simp only: poll_loop_Continue [where body = body and fuel = fuel, OF step] fst_conv snd_conv list.map)
  then show ?case by (simp only: upt_shift)
qed

lemma poll_loop_returned:
  assumes body: "\<And>m s. body m s = (E m, if C m then Return (L m) else Continue (S m))"
  shows "k < fuel \<Longrightarrow> (\<forall>i<k. \<not> C (n + i)) \<Longrightarrow> C (n + k) \<Longrightarrow>
         poll_loop body fuel n st = (map E [n..<n + Suc k], Returned (L (n + k)))"
proof (induction fuel arbitrary: n st k)
  case 0
  then show ?case by simp
next
  case (Suc fuel)
  show ?case
  proof (cases k)
    case 0
    with Suc.prems have "body n st = (E n, Return (L n))" by (simp add: body)
    then have "poll_loop body (Suc fuel) n st = ([E n], Returned (L n))"
      by simp
    with 0 show ?thesis by simp
  next
    case (Suc j)
    with Suc.prems have "\<not> C n" by force
    then have step: "body n st = (E n, Continue (S n))" by (simp add: body)
    from Suc Suc.prems have j: "j < fuel" "\<forall>i<j. \<not> C (Suc n + i)" "C (Suc n + j)"
      by force+
    have "poll_loop body fuel (Suc n) (S n) =
            (map E [Suc n..<Suc n + Suc j], Returned (L (Suc n + j)))"
      using j by (rule Suc.IH)
    then have "poll_loop body (Suc fuel) n st =
                 (map E (n # [Suc n..<Suc n + Suc j]), Returned (L (Suc n + j)))"
      by (simp only: poll_loop_Continue [where body = body and fuel = fuel, OF step] fst_conv snd_conv list.map)
    then have "poll_loop body (Suc fuel) n st =
                 (map E [n..<n + Suc (Suc j)], Returned (L (Suc n + j)))"
      by (simp only: upt_shift)
    with Suc show ?thesis by simp
  qed
qed

lemma poll_loop_cases:
  assumes body: "\<And>m s. body m s = (E m, if C m then Return (L m) else Continue (S m))"
  shows "((\<forall>k<fuel. \<not> C k) \<and> poll_loop body fuel 0 st = (map E [0..<fuel], Polling)) \<or>
         (\<exists>k<fuel. (\<forall>i<k. \<not> C i) \<and> C k \<and>
            poll_loop body fuel 0 st = (map E [0..<Suc k], Returned (L k)))"
proof (cases "\<exists>k<fuel. C k")
  case False
  then have "\<forall>k<fuel. \<not> C (0 + k)" by simp
  from poll_loop_polling [where body = body, OF body this] False show ?thesis by simp
next
  case True
  define k where "k = (LEAST k. C k)"
  from True obtain k0 where k0: "k0 < fuel" "C k0" by blast
  have Ck: "C k" unfolding k_def using k0(2) by (rule LeastI)
  have "k \<le> k0" unfolding k_def using k0(2) by (rule Least_le)
  with k0 have kf: "k < fuel" by simp
  have least: "\<forall>i<k. \<not> C i" unfolding k_def using not_less_Least by blast
  from poll_loop_returned [where body = body and n = 0, OF body kf] least Ck
  have "poll_loop body fuel 0 st = (map E [0..<Suc k], Returned (L k))" by simp
  with kf least Ck show ?thesis by blast
qed

lemma poll_loop_Raise:
  "body n st = (ev, Raise e) \<Longrightarrow> poll_loop body (Suc fuel) n st = ([ev], Raised e)"
  by simp

lemma poll_loop_sleep_cases:
  assumes body: "\<And>m s. body m s =
      (E m, if C m then Return (L m)
            else (case X of None \<Rightarrow> Continue (S m) | Some e \<Rightarrow> Raise e))"
  shows "((\<forall>k<fuel. \<not> C k) \<and> poll_loop body fuel 0 st = (map E [0..<fuel], Polling) \<and>
          (fuel = 0 \<or> X = None)) \<or>
         (\<exists>k<fuel. (\<forall>i<k. \<not> C i) \<and> C k \<and>
            poll_loop body fuel 0 st = (map E [0..<Suc k], Returned (L k)) \<and>
            (k = 0 \<or> X = None)) \<or>
         (\<exists>e. X = Some e \<and> 0 < fuel \<and> \<not> C 0 \<and>
            poll_loop body fuel 0 st = ([E 0], Raised e))"
proof (cases X)
  case None
  have "body m s = (E m, if C m then Return (L m) else Continue (S m))" for m s
    by (simp add: body None)
  from poll_loop_cases [where body = body and fuel = fuel and st = st, OF this] None
  show ?thesis by blast
next
  case (Some e)
  show ?thesis
  proof (cases fuel)
    case 0
    then show ?thesis by simp
  next
    case (Suc f)
    show ?thesis
    proof (cases "C 0")
      case True
      then have "body 0 st = (E 0, Return (L 0))" by (simp add: body)
      then have "poll_loop body (Suc f) 0 st = ([E 0], Returned (L 0))"
        by (rule poll_loop_Return)
      with True Suc show ?thesis by simp
    next
      case False
      then have "body 0 st = (E 0, Raise e)" by (simp add: body Some)
      then have "poll_loop body (Suc f) 0 st = ([E 0], Raised e)"
        by (rule poll_loop_Raise)
      with False Suc Some show ?thesis by simp
    qed
  qed
qed

section \<open>The shape of a run\<close>

lemma firebase_run_cases [case_names Polling Returned Slept]:
  obtains
    (Polling) "\<forall>k<fuel. \<not> host_finished w k"
      "firebase_run conditions kw w fuel =
         \<lparr>setup_calls = firebase_setup conditions kw,
          ticks = map (firebase_tick kw w) [0..<fuel], outcome = Polling\<rparr>"
      "fuel = 0 \<or> time_sleep (sleep_time kw) = None"
  | (Returned) k where "k < fuel" "\<forall>i<k. \<not> host_finished w i" "host_finished w k"
      "firebase_run conditions kw w fuel =
         \<lparr>setup_calls = firebase_setup conditions kw,
          ticks = map (firebase_tick kw w) [0..<Suc k],
          outcome = Returned (sorted_values (get_observations_answer w k))\<rparr>"
      "k = 0 \<or> time_sleep (sleep_time kw) = None"
  | (Slept) e where "time_sleep (sleep_time kw) = Some e" "0 < fuel" "\<not> host_finished w 0"
      "firebase_run conditions kw w fuel =
         \<lparr>setup_calls = firebase_setup conditions kw,
          ticks = [firebase_tick kw w 0], outcome = Raised e\<rparr>"
  using poll_loop_sleep_cases [where body = "firebase_iteration kw w"
      and C = "host_finished w" and X = "time_sleep (sleep_time kw)"
      and fuel = fuel and st = "()", OF firebase_iteration_eq [unfolded after_sleep_def]]
  by (auto simp: firebase_run_def firebase_setup_def)

lemma prolific_run_cases [case_names Raised Polling Returned Slept]:
  obtains
    (Raised) e where "campaign_specification (setup_study_answer w) = Inl e"
      "firebase_prolific_run conditions kw w fuel =
         \<lparr>setup_calls = prolific_setup conditions kw,
          ticks = [], outcome = Raised e\<rparr>"
  | (Polling) t i where "campaign_specification (setup_study_answer w) = Inr (t, i)"
      "\<forall>k<fuel. \<not> (submissions_reached w k \<and> host_finished w k)"
      "firebase_prolific_run conditions kw w fuel =
         \<lparr>setup_calls = prolific_setup conditions kw,
          ticks = map (prolific_tick kw w t i) [0..<fuel], outcome = Polling\<rparr>"
      "fuel = 0 \<or> time_sleep (sleep_time kw) = None"
  | (Returned) t i k where "campaign_specification (setup_study_answer w) = Inr (t, i)"
      "k < fuel" "\<forall>j<k. \<not> (submissions_reached w j \<and> host_finished w j)"
      "submissions_reached w k \<and> host_finished w k"
      "firebase_prolific_run conditions kw w fuel =
         \<lparr>setup_calls = prolific_setup conditions kw,
          ticks = map (prolific_tick kw w t i) [0..<Suc k],
          outcome = Returned (sorted_values (get_observations_answer w k))\<rparr>"
      "k = 0 \<or> time_sleep (sleep_time kw) = None"
  | (Slept) t i e where "campaign_specification (setup_study_answer w) = Inr (t, i)"
      "time_sleep (sleep_time kw) = Some e" "0 < fuel"
      "\<not> (submissions_reached w 0 \<and> host_finished w 0)"
      "firebase_prolific_run conditions kw w fuel =
         \<lparr>setup_calls = prolific_setup conditions kw,
          ticks = [prolific_tick kw w t i 0], outcome = Raised e\<rparr>"
proof (cases "campaign_specification (setup_study_answer w)")
  case (Inl e)
  then have "firebase_prolific_run conditions kw w fuel =
         \<lparr>setup_calls = prolific_setup conditions kw,
          ticks = [], outcome = Raised e\<rparr>"
    by (simp add: firebase_prolific_run_def prolific_setup_def)
  with Inl show ?thesis by (rule Raised)
next
  case (Inr p)
  obtain t i where p: "p = (t, i)" by (cases p)
  with Inr have spec: "campaign_specification (setup_study_answer w) = Inr (t, i)" by simp
  then have tr: "truthy (setup_study_answer w)" by (rule campaign_specification_truthy)
  note loop = poll_loop_sleep_cases
      [where body = "prolific_iteration kw w (setup_study_answer w) t i"
      and C = "\<lambda>n. submissions_reached w n \<and> host_finished w n"
      and X = "time_sleep (sleep_time kw)"
      and fuel = fuel and st = None, OF prolific_iteration_eq [OF tr, unfolded after_sleep_def]]
  from loop show ?thesis
  proof (elim disjE)
    assume a: "(\<forall>k<fuel. \<not> (submissions_reached w k \<and> host_finished w k)) \<and>
      poll_loop (prolific_iteration kw w (setup_study_answer w) t i) fuel 0 None =
        (map (prolific_tick kw w t i) [0..<fuel], Polling) \<and>
      (fuel = 0 \<or> time_sleep (sleep_time kw) = None)"
    then have "firebase_prolific_run conditions kw w fuel =
         \<lparr>setup_calls = prolific_setup conditions kw,
          ticks = map (prolific_tick kw w t i) [0..<fuel], outcome = Polling\<rparr>"
      by (simp add: firebase_prolific_run_def prolific_setup_def spec)
    from spec conjunct1 [OF a] this conjunct2 [OF conjunct2 [OF a]]
    show ?thesis by (rule Polling)
  next
    assume "\<exists>k<fuel. (\<forall>j<k. \<not> (submissions_reached w j \<and> host_finished w j)) \<and>
      (submissions_reached w k \<and> host_finished w k) \<and>
      poll_loop (prolific_iteration kw w (setup_study_answer w) t i) fuel 0 None =
        (map (prolific_tick kw w t i) [0..<Suc k],
         Returned (sorted_values (get_observations_answer w k))) \<and>
      (k = 0 \<or> time_sleep (sleep_time kw) = None)"
    then obtain k where k: "k < fuel"
      "\<forall>j<k. \<not> (submissions_reached w j \<and> host_finished w j)"
      "submissions_reached w k \<and> host_finished w k"
      "poll_loop (prolific_iteration kw w (setup_study_answer w) t i) fuel 0 None =
        (map (prolific_tick kw w t i) [0..<Suc k],
         Returned (sorted_values (get_observations_answer w k)))"
      "k = 0 \<or> time_sleep (sleep_time kw) = None"
      by blast
    from k(4) have "firebase_prolific_run conditions kw w fuel =
         \<lparr>setup_calls = prolific_setup conditions kw,
          ticks = map (prolific_tick kw w t i) [0..<Suc k],
          outcome = Returned (sorted_values (get_observations_answer w k))\<rparr>"
      by (simp add: firebase_prolific_run_def prolific_setup_def spec)
    from spec k(1,2,3) this k(5) show ?thesis by (rule Returned)
  next
    assume "\<exists>e. time_sleep (sleep_time kw) = Some e \<and> 0 < fuel \<and>
      \<not> (submissions_reached w 0 \<and> host_finished w 0) \<and>
      poll_loop (prolific_iteration kw w (setup_study_answer w) t i) fuel 0 None =
        ([prolific_tick kw w t i 0], Raised e)"
    then obtain e where e: "time_sleep (sleep_time kw) = Some e" "0 < fuel"
      "\<not> (submissions_reached w 0 \<and> host_finished w 0)"
      "poll_loop (prolific_iteration kw w (setup_study_answer w) t i) fuel 0 None =
        ([prolific_tick kw w t i 0], Raised e)"
      by blast
    from e(4) have "firebase_prolific_run conditions kw w fuel =
         \<lparr>setup_calls = prolific_setup conditions kw,
          ticks = [prolific_tick kw w t i 0], outcome = Raised e\<rparr>"
      by (simp add: firebase_prolific_run_def prolific_setup_def spec)
    with spec e(1,2,3) show ?thesis by (rule Slept)
  qed
qed

lemma prolific_run_tick:
  assumes spec: "campaign_specification (setup_study_answer w) = Inr (t, i)"
      and n: "n < length (ticks (firebase_prolific_run conditions kw w fuel))"
  shows "ticks (firebase_prolific_run conditions kw w fuel) ! n = prolific_tick kw w t i n"
proof (cases rule: prolific_run_cases [of w conditions kw fuel])
  case (Raised e)
  with spec show ?thesis by simp
next
  case (Polling t' i')
  with spec n show ?thesis by simp
next
  case (Returned t' i' k)
  from n Returned(5) have "n < Suc k" by simp
  with spec Returned(1,5) show ?thesis by (simp only: run.simps nth_map_upt) simp
next
  case (Slept t' i' e)
  with spec n show ?thesis by simp
qed

lemma prolific_run_reaches_loop:
  assumes n: "n < length (ticks (firebase_prolific_run conditions kw w fuel))"
  obtains t i where "campaign_specification (setup_study_answer w) = Inr (t, i)"
proof (cases rule: prolific_run_cases [of w conditions kw fuel])
  case (Raised e)
  with n show ?thesis by simp
next
  case (Polling t i)
  then show ?thesis using that by blast
next
  case (Returned t i k)
  then show ?thesis using that by blast
next
  case (Slept t i e)
  then show ?thesis using that by blast
qed

lemma first_unique:
  fixes k n :: nat
  assumes "P k" "\<forall>i<k. \<not> P i" "P n" "\<forall>m<n. \<not> P m"
  shows "k = n"
  using assms by (meson linorder_neqE_nat)

section \<open>The calls of a tick\<close>

lemma action_calls_length: "length (action_calls kw i a) \<le> 1"
  by (cases "(kw, i, a)" rule: action_calls.cases) simp_all

lemma action_calls_filter_action:
  "filter is_recruiter_action (action_calls kw i a) = action_calls kw i a"
  by (cases "(kw, i, a)" rule: action_calls.cases) (simp_all add: is_recruiter_action_def)

lemma action_calls_kinds:
  "map action_of (action_calls kw i a) = (case a of None \<Rightarrow> [] | Some x \<Rightarrow> [Some x])"
  by (cases "(kw, i, a)" rule: action_calls.cases) simp_all

lemma action_calls_filter_get: "filter is_get_observations (action_calls kw i a) = []"
  by (cases "(kw, i, a)" rule: action_calls.cases) simp_all

lemma action_calls_filter_setup: "filter is_setup_study (action_calls kw i a) = []"
  by (cases "(kw, i, a)" rule: action_calls.cases) simp_all

lemma action_calls_host:
  "c \<in> set (action_calls kw i a) \<Longrightarrow> host_namespace c = None \<and> poll_timeout c = None"
  by (cases "(kw, i, a)" rule: action_calls.cases) auto

lemma precedence_table_finished: "precedence_table ''finished'' s = None"
  by (simp add: precedence_table_def)

lemma prolific_tick_actions:
  "filter is_recruiter_action (prolific_tick kw w t i n) =
     action_calls kw i
       (precedence_table (check_firebase_status_answer w n)
          (status (check_prolific_status_answer w n)))"
  by (simp add: prolific_tick_def is_recruiter_action_def action_calls_filter_action
      host_finished_def precedence_table_finished)

lemma prolific_tick_get:
  "filter is_get_observations (prolific_tick kw w t i n) =
     (if submissions_reached w n \<and> host_finished w n
      then [Get_observations ''autora'' (firebase_credentials kw)] else [])"
  by (simp add: prolific_tick_def action_calls_filter_get)

lemma prolific_tick_setup: "filter is_setup_study (prolific_tick kw w t i n) = []"
  by (simp add: prolific_tick_def action_calls_filter_setup)

lemma prolific_tick_host:
  "c \<in> set (prolific_tick kw w t i n) \<Longrightarrow>
   (\<forall>ns. host_namespace c = Some ns \<longrightarrow> ns = ''autora'') \<and>
   (\<forall>t'. poll_timeout c = Some t' \<longrightarrow> t' = t)"
  by (auto simp: prolific_tick_def dest: action_calls_host split: if_splits)

lemma firebase_tick_get:
  "filter is_get_observations (firebase_tick kw w n) =
     (if host_finished w n then [Get_observations ''autora'' (firebase_credentials kw)] else [])"
  by (simp add: firebase_tick_def)

lemma firebase_tick_host:
  "c \<in> set (firebase_tick kw w n) \<Longrightarrow>
   \<not> is_recruiter_call c \<and> (\<forall>ns. host_namespace c = Some ns \<longrightarrow> ns = ''autora'')"
  by (auto simp: firebase_tick_def split: if_splits)

lemma set_concat_ticks:
  "c \<in> set (concat (map f [0..<m])) \<Longrightarrow> \<exists>n<m. c \<in> set (f n)"
  by auto

lemma filter_concat_none:
  "(\<And>n. n < m \<Longrightarrow> filter P (f n) = []) \<Longrightarrow> filter P (concat (map f [0..<m])) = []"
  by (induction m) simp_all

section \<open>The calls of a run\<close>

lemma firebase_trace_mem:
  assumes "c \<in> set (trace (firebase_run conditions kw w fuel))"
  shows "c \<in> set (firebase_setup conditions kw) \<or> (\<exists>n. c \<in> set (firebase_tick kw w n))"
proof (cases rule: firebase_run_cases [of fuel w conditions kw])
  case Polling
  with assms show ?thesis by (auto simp: trace_def)
next
  case (Returned k)
  with assms show ?thesis by (auto simp: trace_def)
next
  case (Slept e)
  with assms show ?thesis by (auto simp: trace_def)
qed

lemma prolific_trace_mem:
  assumes "c \<in> set (trace (firebase_prolific_run conditions kw w fuel))"
  shows "c \<in> set (prolific_setup conditions kw) \<or>
         (\<exists>t i n. campaign_specification (setup_study_answer w) = Inr (t, i) \<and>
                  c \<in> set (prolific_tick kw w t i n))"
proof (cases rule: prolific_run_cases [of w conditions kw fuel])
  case (Raised e)
  with assms show ?thesis by (simp add: trace_def)
next
  case (Polling t i)
  with assms show ?thesis by (auto simp: trace_def)
next
  case (Returned t i k)
  with assms show ?thesis by (auto simp: trace_def)
next
  case (Slept t i e)
  with assms show ?thesis by (auto simp: trace_def)
qed

lemma firebase_setup_host:
  "c \<in> set (firebase_setup conditions kw) \<Longrightarrow>
   \<not> is_recruiter_call c \<and> (\<forall>ns. host_namespace c = Some ns \<longrightarrow> ns = ''autora'')"
  by (simp add: firebase_setup_def)

lemma prolific_setup_host:
  "c \<in> set (prolific_setup conditions kw) \<Longrightarrow>
   (\<forall>ns. host_namespace c = Some ns \<longrightarrow> ns = ''autora'') \<and> poll_timeout c = None"
  by (auto simp: prolific_setup_def)

lemma campaign_specification_id:
  "campaign_specification pd = Inr (t, i) \<Longrightarrow> getitem pd ''id'' = Inr i"
  by (auto simp: campaign_specification_def split: sum.splits)

lemma campaign_specification_timeout:
  "campaign_specification pd = Inr (t, i) \<Longrightarrow>
   \<exists>m. getitem pd ''maximum_allowed_time'' = Inr m \<and> times60 m = Inr t"
  by (auto simp: campaign_specification_def split: sum.splits)

lemma prolific_trace_setup:
  "filter is_setup_study (trace (firebase_prolific_run conditions kw w fuel)) =
     [Setup_study (study_name kw) (study_description kw) (study_url kw)
        (study_completion_time kw) (prolific_token kw) (length conditions)
        (completion_code kw)]"
proof -
  have none: "filter is_setup_study (concat (map (prolific_tick kw w t i) [0..<m])) = []"
    for t i m
    by (rule filter_concat_none) (rule prolific_tick_setup)
  show ?thesis
  proof (cases rule: prolific_run_cases [of w conditions kw fuel])
    case (Raised e)
    then show ?thesis by (simp add: trace_def prolific_setup_def)
  next
    case (Polling t i)
    then show ?thesis by (simp only: trace_def run.simps filter_append none)
        (simp add: prolific_setup_def)
  next
    case (Returned t i k)
    then show ?thesis by (simp only: trace_def run.simps filter_append none)
        (simp add: prolific_setup_def)
  next
    case (Slept t i e)
    then show ?thesis by (simp add: trace_def prolific_setup_def prolific_tick_setup)
  qed
qed

lemma prolific_trace_timeout:
  assumes "c \<in> set (trace (firebase_prolific_run conditions kw w fuel))"
      and "poll_timeout c = Some t"
  shows "\<exists>m. getitem (setup_study_answer w) ''maximum_allowed_time'' = Inr m \<and>
             times60 m = Inr t"
proof -
  from prolific_trace_mem [OF assms(1)] show ?thesis
  proof
    assume "c \<in> set (prolific_setup conditions kw)"
    with assms(2) show ?thesis using prolific_setup_host by fastforce
  next
    assume "\<exists>t i n. campaign_specification (setup_study_answer w) = Inr (t, i) \<and>
                  c \<in> set (prolific_tick kw w t i n)"
    then obtain t' i n where s: "campaign_specification (setup_study_answer w) = Inr (t', i)"
      and c: "c \<in> set (prolific_tick kw w t' i n)" by blast
    from prolific_tick_host [OF c] assms(2) have "t = t'" by simp
    with campaign_specification_timeout [OF s] show ?thesis by simp
  qed
qed

lemma firebase_ticks_no_fetch:
  "\<forall>i<k. \<not> host_finished w i \<Longrightarrow>
   filter is_get_observations (concat (map (firebase_tick kw w) [0..<k])) = []"
  by (rule filter_concat_none) (simp add: firebase_tick_get)

lemma prolific_ticks_no_fetch:
  "\<forall>j<k. \<not> (submissions_reached w j \<and> host_finished w j) \<Longrightarrow>
   filter is_get_observations (concat (map (prolific_tick kw w t i) [0..<k])) = []"
  by (rule filter_concat_none) (simp add: prolific_tick_get)

lemma firebase_fetch_once:
  "filter is_get_observations (trace (firebase_run conditions kw w fuel)) =
     (if \<exists>l. outcome (firebase_run conditions kw w fuel) = Returned l
      then [Get_observations ''autora'' (firebase_credentials kw)] else []) \<and>
   (\<forall>n. Suc n < length (ticks (firebase_run conditions kw w fuel)) \<longrightarrow>
      filter is_get_observations (ticks (firebase_run conditions kw w fuel) ! n) = []) \<and>
   (\<forall>l. outcome (firebase_run conditions kw w fuel) = Returned l \<longrightarrow>
      (\<exists>k. length (ticks (firebase_run conditions kw w fuel)) = Suc k \<and>
           host_finished w k \<and> (\<forall>m<k. \<not> host_finished w m) \<and>
           filter is_get_observations (ticks (firebase_run conditions kw w fuel) ! k) =
             [Get_observations ''autora'' (firebase_credentials kw)]))"
proof (cases rule: firebase_run_cases [of fuel w conditions kw])
  case Polling
  have "filter is_get_observations (trace (firebase_run conditions kw w fuel)) = []"
    by (simp add: Polling(2) trace_def firebase_setup_def
        firebase_ticks_no_fetch [OF Polling(1)])
  moreover have "filter is_get_observations (ticks (firebase_run conditions kw w fuel) ! n) = []"
    if "Suc n < length (ticks (firebase_run conditions kw w fuel))" for n
    using that Polling(1) by (simp add: Polling(2) firebase_tick_get)
  ultimately show ?thesis by (simp add: Polling(2))
next
  case (Returned k)
  have "filter is_get_observations (trace (firebase_run conditions kw w fuel)) =
          [Get_observations ''autora'' (firebase_credentials kw)]"
    by (simp add: Returned(4) trace_def firebase_setup_def
        firebase_ticks_no_fetch [OF Returned(2)] firebase_tick_get Returned(3))
  moreover have "filter is_get_observations (ticks (firebase_run conditions kw w fuel) ! n) = []"
    if "Suc n < length (ticks (firebase_run conditions kw w fuel))" for n
  proof -
    from that have "n < k" by (simp add: Returned(4))
    with Returned(2) show ?thesis
      by (simp only: Returned(4) run.simps nth_map_upt) (simp add: firebase_tick_get)
  qed
  moreover have "filter is_get_observations (ticks (firebase_run conditions kw w fuel) ! k) =
             [Get_observations ''autora'' (firebase_credentials kw)]"
    using Returned(3)
    by (simp only: Returned(4) run.simps nth_map_upt) (simp add: firebase_tick_get)
  ultimately show ?thesis using Returned(2,3) by (simp add: Returned(4))
next
  case (Slept e)
  then show ?thesis by (simp add: trace_def firebase_setup_def firebase_tick_get)
qed

lemma prolific_fetch_once:
  "filter is_get_observations (trace (firebase_prolific_run conditions kw w fuel)) =
     (if \<exists>l. outcome (firebase_prolific_run conditions kw w fuel) = Returned l
      then [Get_observations ''autora'' (firebase_credentials kw)] else []) \<and>
   (\<forall>n. Suc n < length (ticks (firebase_prolific_run conditions kw w fuel)) \<longrightarrow>
      filter is_get_observations (ticks (firebase_prolific_run conditions kw w fuel) ! n) = []) \<and>
   (\<forall>l. outcome (firebase_prolific_run conditions kw w fuel) = Returned l \<longrightarrow>
      (\<exists>k. length (ticks (firebase_prolific_run conditions kw w fuel)) = Suc k \<and>
           (submissions_reached w k \<and> host_finished w k) \<and>
           (\<forall>m<k. \<not> (submissions_reached w m \<and> host_finished w m)) \<and>
           filter is_get_observations (ticks (firebase_prolific_run conditions kw w fuel) ! k) =
             [Get_observations ''autora'' (firebase_credentials kw)]))"
proof (cases rule: prolific_run_cases [of w conditions kw fuel])
  case (Raised e)
  then show ?thesis by (simp add: trace_def prolific_setup_def)
next
  case (Polling t i)
  have "filter is_get_observations (trace (firebase_prolific_run conditions kw w fuel)) = []"
    by (simp add: Polling(3) trace_def prolific_setup_def
        prolific_ticks_no_fetch [OF Polling(2)])
  moreover have
    "filter is_get_observations (ticks (firebase_prolific_run conditions kw w fuel) ! n) = []"
    if "Suc n < length (ticks (firebase_prolific_run conditions kw w fuel))" for n
    using that Polling(2) by (simp add: Polling(3) prolific_tick_get)
  ultimately show ?thesis by (simp add: Polling(3))
next
  case (Returned t i k)
  have "filter is_get_observations (trace (firebase_prolific_run conditions kw w fuel)) =
          [Get_observations ''autora'' (firebase_credentials kw)]"
    by (simp add: Returned(5) trace_def prolific_setup_def
        prolific_ticks_no_fetch [OF Returned(3)] prolific_tick_get Returned(4))
  moreover have
    "filter is_get_observations (ticks (firebase_prolific_run conditions kw w fuel) ! n) = []"
    if "Suc n < length (ticks (firebase_prolific_run conditions kw w fuel))" for n
  proof -
    from that have "n < k" by (simp add: Returned(5))
    with Returned(3) show ?thesis
      by (simp only: Returned(5) run.simps nth_map_upt) (simp add: prolific_tick_get)
  qed
  moreover have
    "filter is_get_observations (ticks (firebase_prolific_run conditions kw w fuel) ! k) =
             [Get_observations ''autora'' (firebase_credentials kw)]"
    using Returned(4)
    by (simp only: Returned(5) run.simps nth_map_upt) (simp add: prolific_tick_get)
  ultimately show ?thesis using Returned(3,4) by (simp add: Returned(5))
next
  case (Slept t i e)
  then show ?thesis by (simp add: trace_def prolific_setup_def prolific_tick_get)
qed

lemma time_sleep_error:
  "time_sleep v = Some e \<Longrightarrow> e = TypeError \<or> e = ValueError \<or> e = OverflowError"
  by (cases v) (auto split: if_splits)

lemma firebase_run_raised:
  "outcome (firebase_run conditions kw w fuel) = Raised e \<Longrightarrow>
   time_sleep (sleep_time kw) = Some e"
  by (cases rule: firebase_run_cases [of fuel w conditions kw]) simp_all

lemma prolific_run_raised:
  "outcome (firebase_prolific_run conditions kw w fuel) = Raised e \<Longrightarrow>
   campaign_specification (setup_study_answer w) = Inl e \<or>
   time_sleep (sleep_time kw) = Some e"
  by (cases rule: prolific_run_cases [of w conditions kw fuel]) simp_all

lemma firebase_run_returns:
  assumes "n < fuel" "host_finished w n" "\<forall>m<n. \<not> host_finished w m"
    and "n = 0 \<or> time_sleep (sleep_time kw) = None"
  shows "firebase_run conditions kw w fuel =
           \<lparr>setup_calls = firebase_setup conditions kw,
            ticks = map (firebase_tick kw w) [0..<Suc n],
            outcome = Returned (sorted_values (get_observations_answer w n))\<rparr>"
proof (cases rule: firebase_run_cases [of fuel w conditions kw])
  case Polling
  with assms show ?thesis by blast
next
  case (Returned k)
  from Returned(3,2) assms(2,3) have "k = n" by (rule first_unique [of "host_finished w"])
  with Returned(4) show ?thesis by simp
next
  case (Slept e)
  with assms(2,4) show ?thesis by auto
qed

lemma prolific_run_returns:
  assumes "campaign_specification (setup_study_answer w) = Inr (t, i)"
    and "n < fuel" "submissions_reached w n \<and> host_finished w n"
    and "\<forall>m<n. \<not> (submissions_reached w m \<and> host_finished w m)"
    and "n = 0 \<or> time_sleep (sleep_time kw) = None"
  shows "firebase_prolific_run conditions kw w fuel =
           \<lparr>setup_calls = prolific_setup conditions kw,
            ticks = map (prolific_tick kw w t i) [0..<Suc n],
            outcome = Returned (sorted_values (get_observations_answer w n))\<rparr>"
proof (cases rule: prolific_run_cases [of w conditions kw fuel])
  case (Raised e)
  with assms(1) show ?thesis by simp
next
  case (Polling t' i')
  with assms show ?thesis by blast
next
  case (Returned t' i' k)
  from Returned(4,3) assms(3,4) have "k = n"
    by (rule first_unique [of "\<lambda>n. submissions_reached w n \<and> host_finished w n"])
  with Returned(1,5) assms(1) show ?thesis by simp
next
  case (Slept t' i' e)
  with assms(3,5) show ?thesis by auto
qed

lemma firebase_run_completes:
  assumes "n < length (ticks (firebase_run conditions kw w fuel))" "host_finished w n"
  shows "firebase_run conditions kw w fuel =
           \<lparr>setup_calls = firebase_setup conditions kw,
            ticks = map (firebase_tick kw w) [0..<Suc n],
            outcome = Returned (sorted_values (get_observations_answer w n))\<rparr>"
proof (cases rule: firebase_run_cases [of fuel w conditions kw])
  case Polling
  with assms show ?thesis by simp
next
  case (Returned k)
  with assms have "\<not> n < k" "n < Suc k" by auto
  then have "k = n" by simp
  with Returned(4) show ?thesis by simp
next
  case (Slept e)
  with assms show ?thesis by simp
qed

lemma prolific_run_completes:
  assumes "campaign_specification (setup_study_answer w) = Inr (t, i)"
    and "n < length (ticks (firebase_prolific_run conditions kw w fuel))"
    and "submissions_reached w n \<and> host_finished w n"
  shows "firebase_prolific_run conditions kw w fuel =
           \<lparr>setup_calls = prolific_setup conditions kw,
            ticks = map (prolific_tick kw w t i) [0..<Suc n],
            outcome = Returned (sorted_values (get_observations_answer w n))\<rparr>"
proof (cases rule: prolific_run_cases [of w conditions kw fuel])
  case (Raised e)
  with assms(1) show ?thesis by simp
next
  case (Polling t' i')
  with assms(2,3) show ?thesis by simp
next
  case (Returned t' i' k)
  with assms(2,3) have "\<not> n < k" "n < Suc k" by auto
  then have "k = n" by simp
  with Returned(1,5) assms(1) show ?thesis by simp
next
  case (Slept t' i' e)
  with assms(2,3) show ?thesis by simp
qed

lemma firebase_fetch_at_completion:
  "(\<forall>n. n < length (ticks (firebase_run conditions kw w fuel)) \<and> host_finished w n \<longrightarrow>
      filter is_get_observations (ticks (firebase_run conditions kw w fuel) ! n) =
        [Get_observations ''autora'' (firebase_credentials kw)] \<and>
      length (ticks (firebase_run conditions kw w fuel)) = Suc n \<and>
      outcome (firebase_run conditions kw w fuel) =
        Returned (sorted_values (get_observations_answer w n))) \<and>
   (\<forall>n. n < fuel \<and> host_finished w n \<and> (\<forall>m<n. \<not> host_finished w m) \<and>
        (n = 0 \<or> time_sleep (sleep_time kw) = None) \<longrightarrow>
      length (ticks (firebase_run conditions kw w fuel)) = Suc n \<and>
      filter is_get_observations (trace (firebase_run conditions kw w fuel)) =
        [Get_observations ''autora'' (firebase_credentials kw)])"
proof (intro conjI allI impI)
  fix n
  assume "n < length (ticks (firebase_run conditions kw w fuel)) \<and> host_finished w n"
  then have n: "n < length (ticks (firebase_run conditions kw w fuel))"
    and fin: "host_finished w n"
    by simp_all
  then have run: "firebase_run conditions kw w fuel =
           \<lparr>setup_calls = firebase_setup conditions kw,
            ticks = map (firebase_tick kw w) [0..<Suc n],
            outcome = Returned (sorted_values (get_observations_answer w n))\<rparr>"
    by (rule firebase_run_completes)
  from fin show "filter is_get_observations (ticks (firebase_run conditions kw w fuel) ! n) =
        [Get_observations ''autora'' (firebase_credentials kw)]"
    by (simp only: run run.simps nth_map_upt) (simp add: firebase_tick_get)
  show "length (ticks (firebase_run conditions kw w fuel)) = Suc n"
    by (simp add: run)
  show "outcome (firebase_run conditions kw w fuel) =
        Returned (sorted_values (get_observations_answer w n))"
    by (simp add: run)
next
  fix n
  assume "n < fuel \<and> host_finished w n \<and> (\<forall>m<n. \<not> host_finished w m) \<and>
        (n = 0 \<or> time_sleep (sleep_time kw) = None)"
  then have run: "firebase_run conditions kw w fuel =
           \<lparr>setup_calls = firebase_setup conditions kw,
            ticks = map (firebase_tick kw w) [0..<Suc n],
            outcome = Returned (sorted_values (get_observations_answer w n))\<rparr>"
    by (intro firebase_run_returns) simp_all
  then show "length (ticks (firebase_run conditions kw w fuel)) = Suc n"
    by simp
  from run have "\<exists>l. outcome (firebase_run conditions kw w fuel) = Returned l" by simp
  with firebase_fetch_once [of conditions kw w fuel, THEN conjunct1]
  show "filter is_get_observations (trace (firebase_run conditions kw w fuel)) =
        [Get_observations ''autora'' (firebase_credentials kw)]"
    by simp
qed

lemma prolific_fetch_at_completion:
  "(\<forall>n. n < length (ticks (firebase_prolific_run conditions kw w fuel)) \<and>
        (submissions_reached w n \<and> host_finished w n) \<longrightarrow>
      filter is_get_observations (ticks (firebase_prolific_run conditions kw w fuel) ! n) =
        [Get_observations ''autora'' (firebase_credentials kw)] \<and>
      length (ticks (firebase_prolific_run conditions kw w fuel)) = Suc n \<and>
      outcome (firebase_prolific_run conditions kw w fuel) =
        Returned (sorted_values (get_observations_answer w n))) \<and>
   (\<forall>t i n. campaign_specification (setup_study_answer w) = Inr (t, i) \<and> n < fuel \<and>
        (submissions_reached w n \<and> host_finished w n) \<and>
        (\<forall>m<n. \<not> (submissions_reached w m \<and> host_finished w m)) \<and>
        (n = 0 \<or> time_sleep (sleep_time kw) = None) \<longrightarrow>
      length (ticks (firebase_prolific_run conditions kw w fuel)) = Suc n \<and>
      filter is_get_observations (trace (firebase_prolific_run conditions kw w fuel)) =
        [Get_observations ''autora'' (firebase_credentials kw)])"
proof (intro conjI allI impI)
  fix n
  assume a: "n < length (ticks (firebase_prolific_run conditions kw w fuel)) \<and>
        (submissions_reached w n \<and> host_finished w n)"
  then obtain t i where spec: "campaign_specification (setup_study_answer w) = Inr (t, i)"
    using prolific_run_reaches_loop by blast
  from a have run: "firebase_prolific_run conditions kw w fuel =
           \<lparr>setup_calls = prolific_setup conditions kw,
            ticks = map (prolific_tick kw w t i) [0..<Suc n],
            outcome = Returned (sorted_values (get_observations_answer w n))\<rparr>"
    by (intro prolific_run_completes [OF spec]) simp_all
  from a show "filter is_get_observations (ticks (firebase_prolific_run conditions kw w fuel) ! n) =
        [Get_observations ''autora'' (firebase_credentials kw)]"
    by (simp only: run run.simps nth_map_upt) (simp add: prolific_tick_get)
  show "length (ticks (firebase_prolific_run conditions kw w fuel)) = Suc n"
    by (simp add: run)
  show "outcome (firebase_prolific_run conditions kw w fuel) =
        Returned (sorted_values (get_observations_answer w n))"
    by (simp add: run)
next
  fix t i n
  assume a: "campaign_specification (setup_study_answer w) = Inr (t, i) \<and> n < fuel \<and>
        (submissions_reached w n \<and> host_finished w n) \<and>
        (\<forall>m<n. \<not> (submissions_reached w m \<and> host_finished w m)) \<and>
        (n = 0 \<or> time_sleep (sleep_time kw) = None)"
  then have spec: "campaign_specification (setup_study_answer w) = Inr (t, i)" by simp
  from a have run: "firebase_prolific_run conditions kw w fuel =
           \<lparr>setup_calls = prolific_setup conditions kw,
            ticks = map (prolific_tick kw w t i) [0..<Suc n],
            outcome = Returned (sorted_values (get_observations_answer w n))\<rparr>"
    by (intro prolific_run_returns [OF spec]) simp_all
  then show "length (ticks (firebase_prolific_run conditions kw w fuel)) = Suc n"
    by simp
  from run have "\<exists>l. outcome (firebase_prolific_run conditions kw w fuel) = Returned l" by simp
  with prolific_fetch_once [of conditions kw w fuel, THEN conjunct1]
  show "filter is_get_observations (trace (firebase_prolific_run conditions kw w fuel)) =
        [Get_observations ''autora'' (firebase_credentials kw)]"
    by simp
qed

lemma firebase_run_sleep_raises:
  assumes "time_sleep (sleep_time kw) = Some e" "0 < fuel" "\<not> host_finished w 0"
  shows "firebase_run conditions kw w fuel =
           \<lparr>setup_calls = firebase_setup conditions kw,
            ticks = [firebase_tick kw w 0], outcome = Raised e\<rparr>"
proof (cases rule: firebase_run_cases [of fuel w conditions kw])
  case Polling
  with assms show ?thesis by simp
next
  case (Returned k)
  with assms show ?thesis by auto
next
  case (Slept e')
  with assms show ?thesis by simp
qed

lemma prolific_run_sleep_raises:
  assumes "campaign_specification (setup_study_answer w) = Inr (t, i)"
    and "time_sleep (sleep_time kw) = Some e" "0 < fuel"
    and "\<not> (submissions_reached w 0 \<and> host_finished w 0)"
  shows "firebase_prolific_run conditions kw w fuel =
           \<lparr>setup_calls = prolific_setup conditions kw,
            ticks = [prolific_tick kw w t i 0], outcome = Raised e\<rparr>"
proof (cases rule: prolific_run_cases [of w conditions kw fuel])
  case (Raised e')
  with assms(1) show ?thesis by simp
next
  case (Polling t' i')
  with assms show ?thesis by simp
next
  case (Returned t' i' k)
  with assms show ?thesis by auto
next
  case (Slept t' i' e')
  with assms show ?thesis by simp
qed

lemma length_sorted_values: "length (sorted_values d) = length d"
  by (simp add: sorted_values_def keys_def)

lemma getitem_error: "getitem pd k = Inl e \<Longrightarrow> e = KeyError \<or> e = TypeError"
  by (cases pd) (auto split: option.splits)

lemma times60_error: "times60 v = Inl e \<Longrightarrow> e = TypeError"
  by (cases v) auto

lemma campaign_specification_error:
  "campaign_specification pd = Inl e \<Longrightarrow> e = KeyError \<or> e = TypeError"
  by (auto simp: campaign_specification_def split: sum.splits
      dest: getitem_error times60_error)

lemma unassigned_read_raises:
  "\<not> truthy pd \<Longrightarrow> check_firebase_status_answer w n = ''available'' \<Longrightarrow>
   prolific_iteration kw w pd t i n None =
     ([Check_firebase_status ''autora'' (firebase_credentials kw) t], Raise UnboundLocalError)"
  by (simp add: prolific_iteration_def rest_of_iteration_def places_available_def
      available_branch_def)

lemma assigned_read_does_not_raise:
  "truthy pd \<Longrightarrow> snd (prolific_iteration kw w pd t i n cp0) \<noteq> Raise UnboundLocalError"
  by (auto simp: prolific_iteration_eq after_sleep_def split: option.splits
      dest: time_sleep_error)


section \<open>The runs of the concrete scenarios\<close>

lemma example_specification:
  "campaign_specification (setup_study_answer example_world) = Inr (PInt 420, PStr ''s1'')"
  by (simp add: campaign_specification_def example_world_def)

lemma example_prolific_run:
  "firebase_prolific_run [PStr ''a'', PStr ''b''] example_kwargs example_world 3 =
     \<lparr>setup_calls =
        [Send_conditions ''autora'' [PStr ''a'', PStr ''b''] (PStr ''cred''),
         Setup_study (PStr ''study'') (PStr ''text'') (PStr ''url'') (PInt 5) (PStr ''token'') 2
           (PStr ''code'')],
      ticks =
        [[Check_firebase_status ''autora'' (PStr ''cred'') (PInt 420),
          Check_prolific_status (PStr ''s1'') (PStr ''token''),
          Publish_study (PStr ''s1'') (PStr ''token''), Sleep (PInt 3)],
         [Check_firebase_status ''autora'' (PStr ''cred'') (PInt 420),
          Check_prolific_status (PStr ''s1'') (PStr ''token''), Sleep (PInt 3)],
         [Check_firebase_status ''autora'' (PStr ''cred'') (PInt 420),
          Check_prolific_status (PStr ''s1'') (PStr ''token''),
          Get_observations ''autora'' (PStr ''cred'')]],
      outcome = Returned [PStr ''X'', PStr ''Y'']\<rparr>"
  by (simp add: firebase_prolific_run_def campaign_specification_def example_world_def
      example_kwargs_def numeral_3_eq_3 prolific_iteration_def rest_of_iteration_def
      places_available_def available_branch_def unavailable_branch_def
      observation_list_def keys_def dict_getitem_def)

lemma example_firebase_run:
  "firebase_run [PStr ''a'', PStr ''b''] example_kwargs example_world 3 =
     \<lparr>setup_calls = [Send_conditions ''autora'' [PStr ''a'', PStr ''b''] (PStr ''cred'')],
      ticks =
        [[Check_firebase_status ''autora'' (PStr ''cred'') (PInt 100), Sleep (PInt 3)],
         [Check_firebase_status ''autora'' (PStr ''cred'') (PInt 100), Sleep (PInt 3)],
         [Check_firebase_status ''autora'' (PStr ''cred'') (PInt 100),
          Get_observations ''autora'' (PStr ''cred'')]],
      outcome = Returned [PStr ''X'', PStr ''Y'']\<rparr>"
  by (simp add: firebase_run_def example_world_def
      example_kwargs_def numeral_3_eq_3 firebase_iteration_def
      observation_list_def keys_def dict_getitem_def)

lemma no_sleep_time_run:
  "firebase_run [PStr ''a'', PStr ''b''] (example_kwargs\<lparr>sleep_time := PNone\<rparr>)
     example_world 3 =
     \<lparr>setup_calls = [Send_conditions ''autora'' [PStr ''a'', PStr ''b''] (PStr ''cred'')],
      ticks = [[Check_firebase_status ''autora'' (PStr ''cred'') (PInt 100), Sleep PNone]],
      outcome = Raised TypeError\<rparr>"
  by (simp add: firebase_run_def example_world_def
      example_kwargs_def numeral_3_eq_3 firebase_iteration_def)

lemma negative_sleep_time_run:
  "firebase_prolific_run [PStr ''a'', PStr ''b''] (example_kwargs\<lparr>sleep_time := PInt (- 1)\<rparr>)
     example_world 3 =
     \<lparr>setup_calls =
        [Send_conditions ''autora'' [PStr ''a'', PStr ''b''] (PStr ''cred''),
         Setup_study (PStr ''study'') (PStr ''text'') (PStr ''url'') (PInt 5) (PStr ''token'') 2
           (PStr ''code'')],
      ticks =
        [[Check_firebase_status ''autora'' (PStr ''cred'') (PInt 420),
          Check_prolific_status (PStr ''s1'') (PStr ''token''),
          Publish_study (PStr ''s1'') (PStr ''token''), Sleep (PInt (- 1))]],
      outcome = Raised ValueError\<rparr>"
  by (simp add: firebase_prolific_run_def campaign_specification_def example_world_def
      example_kwargs_def numeral_3_eq_3 prolific_iteration_def rest_of_iteration_def
      places_available_def available_branch_def unavailable_branch_def)

lemma other_prolific_run:
  "firebase_prolific_run [PStr ''a''] example_kwargs other_world 3 =
     \<lparr>setup_calls =
        [Send_conditions ''autora'' [PStr ''a''] (PStr ''cred''),
         Setup_study (PStr ''study'') (PStr ''text'') (PStr ''url'') (PInt 5) (PStr ''token'') 1
           (PStr ''code'')],
      ticks =
        [[Check_firebase_status ''autora'' (PStr ''cred'') (PInt 1800),
          Check_prolific_status (PStr ''s2'') (PStr ''token''),
          Pause_study (PStr ''s2'') (PStr ''token''), Sleep (PInt 3)],
         [Check_firebase_status ''autora'' (PStr ''cred'') (PInt 1800),
          Check_prolific_status (PStr ''s2'') (PStr ''token''),
          Start_study (PStr ''s2'') (PStr ''token''), Sleep (PInt 3)],
         [Check_firebase_status ''autora'' (PStr ''cred'') (PInt 1800),
          Check_prolific_status (PStr ''s2'') (PStr ''token''),
          Publish_study (PStr ''s2'') (PStr ''token''), Sleep (PInt 3)]],
      outcome = Polling\<rparr>"
  by (simp add: firebase_prolific_run_def campaign_specification_def other_world_def
      example_kwargs_def numeral_3_eq_3 prolific_iteration_def rest_of_iteration_def
      places_available_def available_branch_def unavailable_branch_def)

lemma short_firebase_run:
  "firebase_run [PStr ''a'', PStr ''b''] example_kwargs short_world 1 =
     \<lparr>setup_calls = [Send_conditions ''autora'' [PStr ''a'', PStr ''b''] (PStr ''cred'')],
      ticks =
        [[Check_firebase_status ''autora'' (PStr ''cred'') (PInt 100),
          Get_observations ''autora'' (PStr ''cred'')]],
      outcome = Returned [PStr ''X'']\<rparr>"
  by (simp add: firebase_run_def short_world_def example_kwargs_def firebase_iteration_def
      observation_list_def keys_def dict_getitem_def)

lemma short_prolific_run:
  "firebase_prolific_run [PStr ''a'', PStr ''b''] example_kwargs short_world 1 =
     \<lparr>setup_calls =
        [Send_conditions ''autora'' [PStr ''a'', PStr ''b''] (PStr ''cred''),
         Setup_study (PStr ''study'') (PStr ''text'') (PStr ''url'') (PInt 5) (PStr ''token'') 2
           (PStr ''code'')],
      ticks =
        [[Check_firebase_status ''autora'' (PStr ''cred'') (PInt 420),
          Check_prolific_status (PStr ''s1'') (PStr ''token''),
          Get_observations ''autora'' (PStr ''cred'')]],
      outcome = Returned [PStr ''X'']\<rparr>"
  by (simp add: firebase_prolific_run_def campaign_specification_def short_world_def
      example_kwargs_def prolific_iteration_def
      observation_list_def keys_def dict_getitem_def)

lemma failed_setup_run:
  "firebase_prolific_run [PStr ''a'', PStr ''b''] example_kwargs failed_setup_world 3 =
     \<lparr>setup_calls =
        [Send_conditions ''autora'' [PStr ''a'', PStr ''b''] (PStr ''cred''),
         Setup_study (PStr ''study'') (PStr ''text'') (PStr ''url'') (PInt 5) (PStr ''token'') 2
           (PStr ''code'')],
      ticks = [], outcome = Raised TypeError\<rparr>"
  by (simp add: firebase_prolific_run_def campaign_specification_def failed_setup_world_def
      example_world_def example_kwargs_def)

section \<open>The aggregation of the observations (C3)\<close>

lemma firebase_run_result:
  "outcome (firebase_run conditions kw w fuel) = Returned l \<Longrightarrow>
   \<exists>n. observation_list (get_observations_answer w n) = Inr l"
  by (cases rule: firebase_run_cases [of fuel w conditions kw])
     (auto simp: observation_list_sorted_values)

lemma prolific_run_result:
  "outcome (firebase_prolific_run conditions kw w fuel) = Returned l \<Longrightarrow>
   \<exists>n. observation_list (get_observations_answer w n) = Inr l"
  by (cases rule: prolific_run_cases [of w conditions kw fuel])
     (auto simp: observation_list_sorted_values)

lemma sort_keys_cong:
  assumes "distinct (keys d)" "distinct (keys d')" "set d = set d'"
  shows "sort (keys d) = sort (keys d')"
proof (rule sorted_distinct_set_unique)
  show "sorted (sort (keys d))" "sorted (sort (keys d'))" by simp_all
  show "distinct (sort (keys d))" "distinct (sort (keys d'))" using assms by simp_all
  show "set (sort (keys d)) = set (sort (keys d'))" using assms(3) by (simp add: keys_def)
qed

lemma sorted_values_cong:
  assumes "distinct (keys d)" "distinct (keys d')" "set d = set d'"
  shows "sorted_values d = sorted_values d'"
proof -
  from assms have "map_of d = map_of d'" by (simp add: keys_def map_of_inject_set)
  with sort_keys_cong [OF assms] show ?thesis by (simp add: sorted_values_def)
qed

text \<open>
  Claim C3. The result built from a fetched observation mapping is the sequence of its
  values in the lexicographically sorted order of its string keys. Two mappings with the
  same entries, iterated in different orders, give the same sequence; the aggregation is
  a function of the mapping, so that a second application to the same mapping gives the
  same sequence. The mapping \<open>{"c2": O2, "c1": O1, "c10": O10}\<close> yields
  \<open>[O1, O10, O2]\<close>. What a run of either runner returns is this sequence for the
  mapping fetched on one of its ticks.
\<close>

theorem observation_list_sorted_by_key:
  "observation_list d = Inr (map (\<lambda>k. the (map_of d k)) (sort (keys d))) \<and>
   (distinct (keys d) \<and> distinct (keys d') \<and> set d = set d'
      \<longrightarrow> observation_list d = observation_list d') \<and>
   observation_list [(''c2'', O2), (''c1'', O1), (''c10'', O10)] = Inr [O1, O10, O2] \<and>
   (outcome (firebase_run conditions kw w fuel) = Returned l \<longrightarrow>
      (\<exists>n. observation_list (get_observations_answer w n) = Inr l)) \<and>
   (outcome (firebase_prolific_run conditions kw w fuel) = Returned l \<longrightarrow>
      (\<exists>n. observation_list (get_observations_answer w n) = Inr l))"
proof (intro conjI)
  show "observation_list d = Inr (map (\<lambda>k. the (map_of d k)) (sort (keys d)))"
    by (simp add: observation_list_sorted_values sorted_values_def)
  show "distinct (keys d) \<and> distinct (keys d') \<and> set d = set d'
      \<longrightarrow> observation_list d = observation_list d'"
    by (simp add: observation_list_sorted_values sorted_values_cong)
  show "observation_list [(''c2'', O2), (''c1'', O1), (''c10'', O10)] = Inr [O1, O10, O2]"
    by (simp add: observation_list_def keys_def dict_getitem_def)
  show "outcome (firebase_run conditions kw w fuel) = Returned l \<longrightarrow>
      (\<exists>n. observation_list (get_observations_answer w n) = Inr l)"
    using firebase_run_result by blast
  show "outcome (firebase_prolific_run conditions kw w fuel) = Returned l \<longrightarrow>
      (\<exists>n. observation_list (get_observations_answer w n) = Inr l)"
    using prolific_run_result by blast
qed

theorem observation_list_sorted_by_key_witness:
  "distinct (keys [(''c2'', PInt 2), (''c1'', PInt 1), (''c10'', PInt 10)]) \<and>
   distinct (keys [(''c10'', PInt 10), (''c2'', PInt 2), (''c1'', PInt 1)]) \<and>
   set [(''c2'', PInt 2), (''c1'', PInt 1), (''c10'', PInt 10)] =
     set [(''c10'', PInt 10), (''c2'', PInt 2), (''c1'', PInt 1)] \<and>
   observation_list [(''c2'', PInt 2), (''c1'', PInt 1), (''c10'', PInt 10)] =
     observation_list [(''c10'', PInt 10), (''c2'', PInt 2), (''c1'', PInt 1)] \<and>
   observation_list [(''c10'', PInt 10), (''c2'', PInt 2), (''c1'', PInt 1)] =
     Inr [PInt 1, PInt 10, PInt 2]"
proof -
  have h: "distinct (keys [(''c2'', PInt 2), (''c1'', PInt 1), (''c10'', PInt 10)]) \<and>
     distinct (keys [(''c10'', PInt 10), (''c2'', PInt 2), (''c1'', PInt 1)]) \<and>
     set [(''c2'', PInt 2), (''c1'', PInt 1), (''c10'', PInt 10)] =
       set [(''c10'', PInt 10), (''c2'', PInt 2), (''c1'', PInt 1)]"
    by (auto simp: keys_def)
  note inst = observation_list_sorted_by_key
    [of "[(''c2'', PInt 2), (''c1'', PInt 1), (''c10'', PInt 10)]"
        "[(''c10'', PInt 10), (''c2'', PInt 2), (''c1'', PInt 1)]" "PInt 2" "PInt 1" "PInt 10"]
  from inst [THEN conjunct2, THEN conjunct1] h
  have "observation_list [(''c2'', PInt 2), (''c1'', PInt 1), (''c10'', PInt 10)] =
          observation_list [(''c10'', PInt 10), (''c2'', PInt 2), (''c1'', PInt 1)]"
    by (rule mp)
  moreover from inst [THEN conjunct2, THEN conjunct2, THEN conjunct1]
  have "observation_list [(''c2'', PInt 2), (''c1'', PInt 1), (''c10'', PInt 10)] =
          Inr [PInt 1, PInt 10, PInt 2]" .
  ultimately
  have "observation_list [(''c2'', PInt 2), (''c1'', PInt 1), (''c10'', PInt 10)] =
          observation_list [(''c10'', PInt 10), (''c2'', PInt 2), (''c1'', PInt 1)]"
    and "observation_list [(''c10'', PInt 10), (''c2'', PInt 2), (''c1'', PInt 1)] =
          Inr [PInt 1, PInt 10, PInt 2]"
    by simp_all
  with h show ?thesis by simp
qed

section \<open>The Reconciler (C1, C6)\<close>

text \<open>
  Claim C1. On every tick of a combined-mode run on which completion does not hold, with
  host status \<open>h\<close> and campaign status \<open>s\<close> read in that tick, the run issues exactly
  the recruiter action that the precedence table gives for \<open>(h, s)\<close> and nothing else:
  publish for (available, UNPUBLISHED), start for (available, PAUSED), pause for
  (unavailable, STARTED), and no action for any other pair. The calls of the tick are the
  two status reads, that action if there is one, and the sleep; at most one recruiter
  action is issued per tick.
\<close>

theorem reconciler_follows_precedence_table:
  assumes "campaign_specification (setup_study_answer w) = Inr (timeout, study_id)"
      and "n < length (ticks (firebase_prolific_run conditions kw w fuel))"
      and "\<not> (submissions_reached w n \<and> host_finished w n)"
  shows "ticks (firebase_prolific_run conditions kw w fuel) ! n =
           [Check_firebase_status ''autora'' (firebase_credentials kw) timeout,
            Check_prolific_status study_id (prolific_token kw)] @
           action_calls kw study_id
             (precedence_table (check_firebase_status_answer w n)
                (status (check_prolific_status_answer w n))) @
           [Sleep (sleep_time kw)] \<and>
         filter is_recruiter_action (ticks (firebase_prolific_run conditions kw w fuel) ! n) =
           action_calls kw study_id
             (precedence_table (check_firebase_status_answer w n)
                (status (check_prolific_status_answer w n))) \<and>
         length (filter is_recruiter_action
                   (ticks (firebase_prolific_run conditions kw w fuel) ! n)) \<le> 1"
proof -
  have tick: "ticks (firebase_prolific_run conditions kw w fuel) ! n =
                prolific_tick kw w timeout study_id n"
    using assms(1,2) by (rule prolific_run_tick)
  show ?thesis
  proof (intro conjI)
    from assms(3) show "ticks (firebase_prolific_run conditions kw w fuel) ! n =
           [Check_firebase_status ''autora'' (firebase_credentials kw) timeout,
            Check_prolific_status study_id (prolific_token kw)] @
           action_calls kw study_id
             (precedence_table (check_firebase_status_answer w n)
                (status (check_prolific_status_answer w n))) @
           [Sleep (sleep_time kw)]"
      by (simp add: tick prolific_tick_def)
    show "filter is_recruiter_action (ticks (firebase_prolific_run conditions kw w fuel) ! n) =
           action_calls kw study_id
             (precedence_table (check_firebase_status_answer w n)
                (status (check_prolific_status_answer w n)))"
      by (simp only: tick prolific_tick_actions)
    show "length (filter is_recruiter_action
                   (ticks (firebase_prolific_run conditions kw w fuel) ! n)) \<le> 1"
      by (simp only: tick prolific_tick_actions action_calls_length)
  qed
qed

theorem reconciler_follows_precedence_table_witness:
  "campaign_specification (setup_study_answer example_world) = Inr (PInt 420, PStr ''s1'') \<and>
   0 < length (ticks (firebase_prolific_run [PStr ''a'', PStr ''b''] example_kwargs
                        example_world 3)) \<and>
   \<not> (submissions_reached example_world 0 \<and> host_finished example_world 0) \<and>
   precedence_table (check_firebase_status_answer example_world 0)
     (status (check_prolific_status_answer example_world 0)) = Some Publish \<and>
   filter is_recruiter_action
     (ticks (firebase_prolific_run [PStr ''a'', PStr ''b''] example_kwargs example_world 3) ! 0) =
     [Publish_study (PStr ''s1'') (PStr ''token'')]"
proof -
  have h1: "campaign_specification (setup_study_answer example_world) =
              Inr (PInt 420, PStr ''s1'')"
    by (rule example_specification)
  have h2: "0 < length (ticks (firebase_prolific_run [PStr ''a'', PStr ''b''] example_kwargs
                          example_world 3))"
    by (simp add: example_prolific_run)
  have h3: "\<not> (submissions_reached example_world 0 \<and> host_finished example_world 0)"
    by (simp add: host_finished_def example_world_def)
  have row: "precedence_table (check_firebase_status_answer example_world 0)
     (status (check_prolific_status_answer example_world 0)) = Some Publish"
    by (simp add: precedence_table_def example_world_def)
  from reconciler_follows_precedence_table [OF h1 h2 h3, THEN conjunct2, THEN conjunct1]
  have "filter is_recruiter_action
     (ticks (firebase_prolific_run [PStr ''a'', PStr ''b''] example_kwargs example_world 3) ! 0) =
     action_calls example_kwargs (PStr ''s1'') (Some Publish)"
    by (simp only: row)
  then have "filter is_recruiter_action
     (ticks (firebase_prolific_run [PStr ''a'', PStr ''b''] example_kwargs example_world 3) ! 0) =
     [Publish_study (PStr ''s1'') (PStr ''token'')]"
    by (simp add: example_kwargs_def)
  with h1 h2 h3 row show ?thesis by blast
qed

text \<open>
  Claim C6. The recruiter action issued at a tick is a function of the pair of host status
  and campaign status read in that tick: any two ticks, at any positions of the same run
  or of two runs with any configurations, conditions and earlier answers, that read the
  same pair of statuses issue the same action, or both none; with the same token and
  study id they issue the same call. Nothing that an earlier iteration decided or left
  behind enters the decision: the iteration does the same whatever value of
  \<^verbatim>\<open>check_prolific\<close> the previous one left.
\<close>

theorem action_is_function_of_snapshot:
  assumes "i < length (ticks (firebase_prolific_run conditions1 kw1 w1 fuel1))"
      and "j < length (ticks (firebase_prolific_run conditions2 kw2 w2 fuel2))"
      and "check_firebase_status_answer w1 i = check_firebase_status_answer w2 j"
      and "status (check_prolific_status_answer w1 i) =
           status (check_prolific_status_answer w2 j)"
  shows "map action_of (filter is_recruiter_action
           (ticks (firebase_prolific_run conditions1 kw1 w1 fuel1) ! i)) =
         map action_of (filter is_recruiter_action
           (ticks (firebase_prolific_run conditions2 kw2 w2 fuel2) ! j)) \<and>
         (prolific_token kw1 = prolific_token kw2 \<and>
          getitem (setup_study_answer w1) ''id'' = getitem (setup_study_answer w2) ''id'' \<longrightarrow>
            filter is_recruiter_action
              (ticks (firebase_prolific_run conditions1 kw1 w1 fuel1) ! i) =
            filter is_recruiter_action
              (ticks (firebase_prolific_run conditions2 kw2 w2 fuel2) ! j)) \<and>
         (\<forall>t sid n cp0 cp0'.
            prolific_iteration kw1 w1 (setup_study_answer w1) t sid n cp0 =
            prolific_iteration kw1 w1 (setup_study_answer w1) t sid n cp0')"
proof -
  from assms(1) obtain t1 i1
    where s1: "campaign_specification (setup_study_answer w1) = Inr (t1, i1)"
    by (rule prolific_run_reaches_loop)
  from assms(2) obtain t2 i2
    where s2: "campaign_specification (setup_study_answer w2) = Inr (t2, i2)"
    by (rule prolific_run_reaches_loop)
  have kinds: "map action_of (filter is_recruiter_action
           (ticks (firebase_prolific_run conditions1 kw1 w1 fuel1) ! i)) =
         map action_of (filter is_recruiter_action
           (ticks (firebase_prolific_run conditions2 kw2 w2 fuel2) ! j))"
    by (simp only: prolific_run_tick [OF s1 assms(1)] prolific_run_tick [OF s2 assms(2)]
        prolific_tick_actions action_calls_kinds assms(3,4))
  have calls: "filter is_recruiter_action
              (ticks (firebase_prolific_run conditions1 kw1 w1 fuel1) ! i) =
            filter is_recruiter_action
              (ticks (firebase_prolific_run conditions2 kw2 w2 fuel2) ! j)"
    if "prolific_token kw1 = prolific_token kw2 \<and>
        getitem (setup_study_answer w1) ''id'' = getitem (setup_study_answer w2) ''id''"
  proof -
    from that campaign_specification_id [OF s1] campaign_specification_id [OF s2]
    have "i1 = i2" by simp
    moreover have "action_calls kw1 i2 a = action_calls kw2 i2 a" for a
      using that by (cases "(kw1, i2, a)" rule: action_calls.cases) simp_all
    ultimately show ?thesis
      by (simp only: prolific_run_tick [OF s1 assms(1)] prolific_run_tick [OF s2 assms(2)]
          prolific_tick_actions assms(3,4))
  qed
  have state: "prolific_iteration kw1 w1 (setup_study_answer w1) t sid n cp0 =
               prolific_iteration kw1 w1 (setup_study_answer w1) t sid n cp0'"
    for t sid n cp0 cp0'
    by (simp only: prolific_iteration_eq [OF campaign_specification_truthy [OF s1]])
  from kinds calls state show ?thesis by blast
qed

theorem action_is_function_of_snapshot_witness:
  "0 < length (ticks (firebase_prolific_run [PStr ''a'', PStr ''b''] example_kwargs
                        example_world 3)) \<and>
   2 < length (ticks (firebase_prolific_run [PStr ''a''] example_kwargs other_world 3)) \<and>
   check_firebase_status_answer example_world 0 = check_firebase_status_answer other_world 2 \<and>
   status (check_prolific_status_answer example_world 0) =
     status (check_prolific_status_answer other_world 2) \<and>
   map action_of (filter is_recruiter_action
     (ticks (firebase_prolific_run [PStr ''a''] example_kwargs other_world 3) ! 2)) =
     [Some Publish]"
proof -
  have h1: "0 < length (ticks (firebase_prolific_run [PStr ''a'', PStr ''b''] example_kwargs
                                 example_world 3))"
    by (simp add: example_prolific_run)
  have h2: "2 < length (ticks (firebase_prolific_run [PStr ''a''] example_kwargs
                                 other_world 3))"
    by (simp add: other_prolific_run)
  have h3: "check_firebase_status_answer example_world 0 =
              check_firebase_status_answer other_world 2"
    by (simp add: example_world_def other_world_def)
  have h4: "status (check_prolific_status_answer example_world 0) =
              status (check_prolific_status_answer other_world 2)"
    by (simp add: example_world_def other_world_def)
  have "map action_of (filter is_recruiter_action
          (ticks (firebase_prolific_run [PStr ''a'', PStr ''b''] example_kwargs
                    example_world 3) ! 0)) = [Some Publish]"
    by (simp add: example_prolific_run is_recruiter_action_def)
  with action_is_function_of_snapshot [OF h1 h2 h3 h4, THEN conjunct1]
  have "map action_of (filter is_recruiter_action
     (ticks (firebase_prolific_run [PStr ''a''] example_kwargs other_world 3) ! 2)) =
     [Some Publish]"
    by simp
  with h1 h2 h3 h4 show ?thesis by blast
qed

section \<open>Completion of the combined run (C2)\<close>

text \<open>
  Claim C2. A combined-mode run that has set up its campaign, configured with a sleep time
  that \<^verbatim>\<open>time.sleep\<close> accepts, returns observations exactly
  when the snapshot of some tick satisfies both \<open>number_of_submissions \<ge>
  total_available_places\<close> and host status \<open>finished\<close> together. It returns on the
  first such tick, as soon as the loop is given that many iterations, with the
  observations fetched in it. On a tick in which the two
  conditions do not both hold the run fetches nothing and does not return.
\<close>

theorem combined_run_completion:
  assumes "campaign_specification (setup_study_answer w) = Inr (timeout, study_id)"
      and "time_sleep (sleep_time kw) = None"
  shows "((\<exists>fuel l. outcome (firebase_prolific_run conditions kw w fuel) = Returned l) \<longleftrightarrow>
          (\<exists>n. submissions_reached w n \<and> host_finished w n)) \<and>
         (\<forall>fuel l. outcome (firebase_prolific_run conditions kw w fuel) = Returned l \<longrightarrow>
            (\<exists>n. length (ticks (firebase_prolific_run conditions kw w fuel)) = Suc n \<and>
                 submissions_reached w n \<and> host_finished w n \<and>
                 (\<forall>m<n. \<not> (submissions_reached w m \<and> host_finished w m)) \<and>
                 l = sorted_values (get_observations_answer w n))) \<and>
         (\<forall>fuel n. n < fuel \<and> (submissions_reached w n \<and> host_finished w n) \<and>
            (\<forall>m<n. \<not> (submissions_reached w m \<and> host_finished w m)) \<longrightarrow>
            outcome (firebase_prolific_run conditions kw w fuel) =
              Returned (sorted_values (get_observations_answer w n)) \<and>
            length (ticks (firebase_prolific_run conditions kw w fuel)) = Suc n) \<and>
         (\<forall>fuel n. n < length (ticks (firebase_prolific_run conditions kw w fuel)) \<and>
            \<not> (submissions_reached w n \<and> host_finished w n) \<longrightarrow>
            filter is_get_observations
              (ticks (firebase_prolific_run conditions kw w fuel) ! n) = [] \<and>
            \<not> (\<exists>l. outcome (firebase_prolific_run conditions kw w fuel) = Returned l \<and>
                    length (ticks (firebase_prolific_run conditions kw w fuel)) = Suc n))"
proof -
  have returned: "\<exists>n. length (ticks (firebase_prolific_run conditions kw w fuel)) = Suc n \<and>
                 submissions_reached w n \<and> host_finished w n \<and>
                 (\<forall>m<n. \<not> (submissions_reached w m \<and> host_finished w m)) \<and>
                 l = sorted_values (get_observations_answer w n)"
    if "outcome (firebase_prolific_run conditions kw w fuel) = Returned l" for fuel l
  proof (cases rule: prolific_run_cases [of w conditions kw fuel])
    case (Raised e)
    with that show ?thesis by simp
  next
    case (Polling t i)
    with that show ?thesis by simp
  next
    case (Returned t i k)
    with that show ?thesis by auto
  next
    case (Slept t i e)
    with that show ?thesis by simp
  qed
  have returns: "\<exists>l. outcome (firebase_prolific_run conditions kw w (Suc n)) = Returned l"
    if "submissions_reached w n \<and> host_finished w n" for n
  proof (cases rule: prolific_run_cases [of w conditions kw "Suc n"])
    case (Raised e)
    with assms(1) show ?thesis by simp
  next
    case (Polling t i)
    with that show ?thesis by blast
  next
    case (Returned t i k)
    then show ?thesis by simp
  next
    case (Slept t i e)
    with assms(2) show ?thesis by simp
  qed
  have no_fetch: "filter is_get_observations
              (ticks (firebase_prolific_run conditions kw w fuel) ! n) = []"
    if "n < length (ticks (firebase_prolific_run conditions kw w fuel))"
      and "\<not> (submissions_reached w n \<and> host_finished w n)" for fuel n
    using that(2)
    by (simp only: prolific_run_tick [OF assms(1) that(1)] prolific_tick_get if_False)
  show ?thesis
  proof (intro conjI allI impI iffI)
    assume "\<exists>fuel l. outcome (firebase_prolific_run conditions kw w fuel) = Returned l"
    then show "\<exists>n. submissions_reached w n \<and> host_finished w n"
      using returned by blast
  next
    assume "\<exists>n. submissions_reached w n \<and> host_finished w n"
    then show "\<exists>fuel l. outcome (firebase_prolific_run conditions kw w fuel) = Returned l"
      using returns by blast
  next
    fix fuel l
    assume "outcome (firebase_prolific_run conditions kw w fuel) = Returned l"
    then show "\<exists>n. length (ticks (firebase_prolific_run conditions kw w fuel)) = Suc n \<and>
                 submissions_reached w n \<and> host_finished w n \<and>
                 (\<forall>m<n. \<not> (submissions_reached w m \<and> host_finished w m)) \<and>
                 l = sorted_values (get_observations_answer w n)"
      by (rule returned)
  next
    fix fuel n
    assume "n < fuel \<and> (submissions_reached w n \<and> host_finished w n) \<and>
            (\<forall>m<n. \<not> (submissions_reached w m \<and> host_finished w m))"
    with assms(2) have "firebase_prolific_run conditions kw w fuel =
           \<lparr>setup_calls = prolific_setup conditions kw,
            ticks = map (prolific_tick kw w timeout study_id) [0..<Suc n],
            outcome = Returned (sorted_values (get_observations_answer w n))\<rparr>"
      by (intro prolific_run_returns [OF assms(1)]) simp_all
    then show "outcome (firebase_prolific_run conditions kw w fuel) =
              Returned (sorted_values (get_observations_answer w n))"
      and "length (ticks (firebase_prolific_run conditions kw w fuel)) = Suc n"
      by simp_all
  next
    fix fuel n
    assume a: "n < length (ticks (firebase_prolific_run conditions kw w fuel)) \<and>
            \<not> (submissions_reached w n \<and> host_finished w n)"
    then show "filter is_get_observations
              (ticks (firebase_prolific_run conditions kw w fuel) ! n) = []"
      using no_fetch by blast
    show "\<not> (\<exists>l. outcome (firebase_prolific_run conditions kw w fuel) = Returned l \<and>
                    length (ticks (firebase_prolific_run conditions kw w fuel)) = Suc n)"
    proof
      assume "\<exists>l. outcome (firebase_prolific_run conditions kw w fuel) = Returned l \<and>
                    length (ticks (firebase_prolific_run conditions kw w fuel)) = Suc n"
      then obtain l where l: "outcome (firebase_prolific_run conditions kw w fuel) = Returned l"
        and len: "length (ticks (firebase_prolific_run conditions kw w fuel)) = Suc n"
        by blast
      from returned [OF l] len have "submissions_reached w n \<and> host_finished w n" by auto
      with a show False by blast
    qed
  qed
qed

theorem combined_run_completion_witness:
  "campaign_specification (setup_study_answer example_world) = Inr (PInt 420, PStr ''s1'') \<and>
   time_sleep (sleep_time example_kwargs) = None \<and>
   outcome (firebase_prolific_run [PStr ''a'', PStr ''b''] example_kwargs example_world 3) =
     Returned [PStr ''X'', PStr ''Y''] \<and>
   submissions_reached example_world 2 \<and> host_finished example_world 2 \<and>
   [PStr ''X'', PStr ''Y''] = sorted_values (get_observations_answer example_world 2)"
proof -
  have h: "campaign_specification (setup_study_answer example_world) =
             Inr (PInt 420, PStr ''s1'')"
    by (rule example_specification)
  have s: "time_sleep (sleep_time example_kwargs) = None"
    by (simp add: example_kwargs_def)
  have out: "outcome (firebase_prolific_run [PStr ''a'', PStr ''b''] example_kwargs
                        example_world 3) = Returned [PStr ''X'', PStr ''Y'']"
    by (simp add: example_prolific_run)
  have len: "length (ticks (firebase_prolific_run [PStr ''a'', PStr ''b''] example_kwargs
                              example_world 3)) = Suc 2"
    by (simp add: example_prolific_run)
  from combined_run_completion
    [OF h s, where conditions = "[PStr ''a'', PStr ''b'']", THEN conjunct2, THEN conjunct1,
     rule_format, OF out]
  obtain n where
    "length (ticks (firebase_prolific_run [PStr ''a'', PStr ''b''] example_kwargs
                      example_world 3)) = Suc n"
    "submissions_reached example_world n" "host_finished example_world n"
    "[PStr ''X'', PStr ''Y''] = sorted_values (get_observations_answer example_world n)"
    by blast
  with len have "submissions_reached example_world 2" "host_finished example_world 2"
    "[PStr ''X'', PStr ''Y''] = sorted_values (get_observations_answer example_world 2)"
    by simp_all
  with h s out show ?thesis by blast
qed

section \<open>The host-only run (C4)\<close>

text \<open>
  Claim C4. A host-only run returns exactly on the first poll that reads host status
  \<open>finished\<close>, with the observations fetched on that poll in sorted key order: a poll
  that reads \<open>finished\<close> is the last one and returns and, with a sleep time that
  \<^verbatim>\<open>time.sleep\<close> accepts, the run reaches the first such poll and keeps polling as
  long as no poll has read \<open>finished\<close>. In the whole run it calls no operation of the
  recruitment platform: neither \<^verbatim>\<open>setup_study\<close> nor
  \<^verbatim>\<open>check_prolific_status\<close> nor publish, start or pause.
\<close>

theorem host_only_run:
  "(\<forall>c\<in>set (trace (firebase_run conditions kw w fuel)). \<not> is_recruiter_call c) \<and>
   (time_sleep (sleep_time kw) = None \<and>
    n < fuel \<and> host_finished w n \<and> (\<forall>m<n. \<not> host_finished w m) \<longrightarrow>
      outcome (firebase_run conditions kw w fuel) =
        Returned (sorted_values (get_observations_answer w n)) \<and>
      length (ticks (firebase_run conditions kw w fuel)) = Suc n) \<and>
   (time_sleep (sleep_time kw) = None \<and> (\<forall>m<fuel. \<not> host_finished w m) \<longrightarrow>
      outcome (firebase_run conditions kw w fuel) = Polling \<and>
      length (ticks (firebase_run conditions kw w fuel)) = fuel) \<and>
   (\<forall>l. outcome (firebase_run conditions kw w fuel) = Returned l \<longrightarrow>
      (\<exists>k. length (ticks (firebase_run conditions kw w fuel)) = Suc k \<and>
           host_finished w k \<and> (\<forall>m<k. \<not> host_finished w m) \<and>
           l = sorted_values (get_observations_answer w k))) \<and>
   (n < length (ticks (firebase_run conditions kw w fuel)) \<and> host_finished w n \<longrightarrow>
      outcome (firebase_run conditions kw w fuel) =
        Returned (sorted_values (get_observations_answer w n)) \<and>
      length (ticks (firebase_run conditions kw w fuel)) = Suc n)"
proof (intro conjI)
  show "\<forall>c\<in>set (trace (firebase_run conditions kw w fuel)). \<not> is_recruiter_call c"
    using firebase_trace_mem firebase_setup_host firebase_tick_host by blast
next
  have "outcome (firebase_run conditions kw w fuel) =
          Returned (sorted_values (get_observations_answer w n)) \<and>
        length (ticks (firebase_run conditions kw w fuel)) = Suc n"
    if "time_sleep (sleep_time kw) = None" "n < fuel" "host_finished w n"
      "\<forall>m<n. \<not> host_finished w m"
  proof -
    from that have "firebase_run conditions kw w fuel =
           \<lparr>setup_calls = firebase_setup conditions kw,
            ticks = map (firebase_tick kw w) [0..<Suc n],
            outcome = Returned (sorted_values (get_observations_answer w n))\<rparr>"
      by (intro firebase_run_returns) simp_all
    then show ?thesis by simp
  qed
  then show "time_sleep (sleep_time kw) = None \<and>
    n < fuel \<and> host_finished w n \<and> (\<forall>m<n. \<not> host_finished w m) \<longrightarrow>
      outcome (firebase_run conditions kw w fuel) =
        Returned (sorted_values (get_observations_answer w n)) \<and>
      length (ticks (firebase_run conditions kw w fuel)) = Suc n"
    by blast
next
  have "outcome (firebase_run conditions kw w fuel) = Polling \<and>
        length (ticks (firebase_run conditions kw w fuel)) = fuel"
    if sleep: "time_sleep (sleep_time kw) = None" and never: "\<forall>m<fuel. \<not> host_finished w m"
  proof (cases rule: firebase_run_cases [of fuel w conditions kw])
    case Polling
    then show ?thesis by simp
  next
    case (Returned k)
    with never show ?thesis by blast
  next
    case (Slept e)
    with sleep show ?thesis by simp
  qed
  then show "time_sleep (sleep_time kw) = None \<and> (\<forall>m<fuel. \<not> host_finished w m) \<longrightarrow>
      outcome (firebase_run conditions kw w fuel) = Polling \<and>
      length (ticks (firebase_run conditions kw w fuel)) = fuel"
    by blast
next
  have "\<exists>k. length (ticks (firebase_run conditions kw w fuel)) = Suc k \<and>
           host_finished w k \<and> (\<forall>m<k. \<not> host_finished w m) \<and>
           l = sorted_values (get_observations_answer w k)"
    if l: "outcome (firebase_run conditions kw w fuel) = Returned l" for l
  proof (cases rule: firebase_run_cases [of fuel w conditions kw])
    case Polling
    with l show ?thesis by simp
  next
    case (Returned k)
    with l show ?thesis by auto
  next
    case (Slept e)
    with l show ?thesis by simp
  qed
  then show "\<forall>l. outcome (firebase_run conditions kw w fuel) = Returned l \<longrightarrow>
      (\<exists>k. length (ticks (firebase_run conditions kw w fuel)) = Suc k \<and>
           host_finished w k \<and> (\<forall>m<k. \<not> host_finished w m) \<and>
           l = sorted_values (get_observations_answer w k))"
    by blast
next
  have "outcome (firebase_run conditions kw w fuel) =
          Returned (sorted_values (get_observations_answer w n)) \<and>
        length (ticks (firebase_run conditions kw w fuel)) = Suc n"
    if "n < length (ticks (firebase_run conditions kw w fuel))" "host_finished w n"
  proof -
    from that have "firebase_run conditions kw w fuel =
           \<lparr>setup_calls = firebase_setup conditions kw,
            ticks = map (firebase_tick kw w) [0..<Suc n],
            outcome = Returned (sorted_values (get_observations_answer w n))\<rparr>"
      by (rule firebase_run_completes)
    then show ?thesis by simp
  qed
  then show "n < length (ticks (firebase_run conditions kw w fuel)) \<and> host_finished w n \<longrightarrow>
      outcome (firebase_run conditions kw w fuel) =
        Returned (sorted_values (get_observations_answer w n)) \<and>
      length (ticks (firebase_run conditions kw w fuel)) = Suc n"
    by blast
qed

theorem host_only_run_witness:
  "time_sleep (sleep_time example_kwargs) = None \<and>
   2 < (3::nat) \<and> host_finished example_world 2 \<and>
   \<not> host_finished example_world 0 \<and> \<not> host_finished example_world 1 \<and>
   outcome (firebase_run [PStr ''a'', PStr ''b''] example_kwargs example_world 3) =
     Returned (sorted_values (get_observations_answer example_world 2)) \<and>
   length (ticks (firebase_run [PStr ''a'', PStr ''b''] example_kwargs example_world 3)) = 3 \<and>
   sorted_values (get_observations_answer example_world 2) = [PStr ''X'', PStr ''Y'']"
proof -
  have h: "time_sleep (sleep_time example_kwargs) = None \<and>
           2 < (3::nat) \<and> host_finished example_world 2 \<and>
           (\<forall>m<2. \<not> host_finished example_world m)"
    by (simp add: host_finished_def example_world_def example_kwargs_def)
  have early: "\<not> host_finished example_world 0 \<and> \<not> host_finished example_world 1"
    by (simp add: host_finished_def example_world_def)
  have vals: "sorted_values (get_observations_answer example_world 2) = [PStr ''X'', PStr ''Y'']"
    by (simp add: sorted_values_def keys_def example_world_def)
  from host_only_run
    [of "[PStr ''a'', PStr ''b'']" example_kwargs example_world 3 2,
     THEN conjunct2, THEN conjunct1] h
  have "outcome (firebase_run [PStr ''a'', PStr ''b''] example_kwargs example_world 3) =
          Returned (sorted_values (get_observations_answer example_world 2)) \<and>
        length (ticks (firebase_run [PStr ''a'', PStr ''b''] example_kwargs example_world 3)) =
          Suc 2"
    by (rule mp)
  with h early vals show ?thesis by simp
qed

section \<open>Campaign size and time-out (C5)\<close>

text \<open>
  Claim C5. For every batch of conditions the combined-mode run creates the campaign
  once, with \<open>total_available_places\<close> equal to the number of conditions, and every
  poll of the host status in its loop passes as time-out the product of the
  \<open>maximum_allowed_time\<close> of the creation answer and 60; for an integer \<open>m\<close> that is
  the integer \<open>m * 60\<close>.
\<close>

theorem campaign_size_and_timeout:
  "filter is_setup_study (trace (firebase_prolific_run conditions kw w fuel)) =
     [Setup_study (study_name kw) (study_description kw) (study_url kw)
        (study_completion_time kw) (prolific_token kw) (length conditions)
        (completion_code kw)] \<and>
   (\<forall>c\<in>set (trace (firebase_prolific_run conditions kw w fuel)).
      \<forall>t. poll_timeout c = Some t \<longrightarrow>
        (\<exists>m. getitem (setup_study_answer w) ''maximum_allowed_time'' = Inr m \<and>
             times60 m = Inr t)) \<and>
   (\<forall>m. getitem (setup_study_answer w) ''maximum_allowed_time'' = Inr (PInt m) \<longrightarrow>
      (\<forall>c\<in>set (trace (firebase_prolific_run conditions kw w fuel)).
         \<forall>t. poll_timeout c = Some t \<longrightarrow> t = PInt (m * 60)))"
proof (intro conjI ballI allI impI)
  show "filter is_setup_study (trace (firebase_prolific_run conditions kw w fuel)) =
     [Setup_study (study_name kw) (study_description kw) (study_url kw)
        (study_completion_time kw) (prolific_token kw) (length conditions)
        (completion_code kw)]"
    by (rule prolific_trace_setup)
next
  fix c t
  assume "c \<in> set (trace (firebase_prolific_run conditions kw w fuel))"
    and "poll_timeout c = Some t"
  then show "\<exists>m. getitem (setup_study_answer w) ''maximum_allowed_time'' = Inr m \<and>
             times60 m = Inr t"
    by (rule prolific_trace_timeout)
next
  fix m c t
  assume m: "getitem (setup_study_answer w) ''maximum_allowed_time'' = Inr (PInt m)"
    and "c \<in> set (trace (firebase_prolific_run conditions kw w fuel))"
    and "poll_timeout c = Some t"
  from prolific_trace_timeout [OF this(2,3)] m show "t = PInt (m * 60)" by auto
qed

theorem campaign_size_and_timeout_witness:
  "getitem (setup_study_answer example_world) ''maximum_allowed_time'' = Inr (PInt 7) \<and>
   Check_firebase_status ''autora'' (PStr ''cred'') (PInt 420)
     \<in> set (trace (firebase_prolific_run [PStr ''a'', PStr ''b''] example_kwargs
                     example_world 3)) \<and>
   poll_timeout (Check_firebase_status ''autora'' (PStr ''cred'') (PInt 420)) =
     Some (PInt 420) \<and>
   PInt 420 = PInt (7 * 60) \<and>
   filter is_setup_study
     (trace (firebase_prolific_run [PStr ''a'', PStr ''b''] example_kwargs example_world 3)) =
     [Setup_study (PStr ''study'') (PStr ''text'') (PStr ''url'') (PInt 5) (PStr ''token'')
        (length [PStr ''a'', PStr ''b'']) (PStr ''code'')]"
proof -
  have h1: "getitem (setup_study_answer example_world) ''maximum_allowed_time'' =
              Inr (PInt 7)"
    by (simp add: example_world_def)
  have h2: "Check_firebase_status ''autora'' (PStr ''cred'') (PInt 420)
     \<in> set (trace (firebase_prolific_run [PStr ''a'', PStr ''b''] example_kwargs
                     example_world 3))"
    by (simp add: example_prolific_run trace_def)
  have h3: "poll_timeout (Check_firebase_status ''autora'' (PStr ''cred'') (PInt 420)) =
              Some (PInt 420)"
    by simp
  note inst = campaign_size_and_timeout
    [of "[PStr ''a'', PStr ''b'']" example_kwargs example_world 3]
  from inst h1 h2 h3 have "PInt 420 = PInt (7 * 60)" by blast
  moreover from inst have "filter is_setup_study
     (trace (firebase_prolific_run [PStr ''a'', PStr ''b''] example_kwargs example_world 3)) =
     [Setup_study (PStr ''study'') (PStr ''text'') (PStr ''url'') (PInt 5) (PStr ''token'')
        (length [PStr ''a'', PStr ''b'']) (PStr ''code'')]"
    by (simp add: example_kwargs_def)
  ultimately show ?thesis using h1 h2 h3 by blast
qed

section \<open>Fetching the observations (C7, C8)\<close>

text \<open>
  Claim C7. In a run of either runner \<^verbatim>\<open>get_observations\<close> is called exactly once:
  on the tick on which the completion condition first holds, which is the last tick and
  the one on which the run returns. A tick on which the condition holds fetches once and
  ends the run; the run reaches the first such tick when it is the first tick or the
  sleep time is one that \<^verbatim>\<open>time.sleep\<close> accepts. No tick before the last one calls
  \<^verbatim>\<open>get_observations\<close>, and a run that has not returned has not called it.
\<close>

theorem fetch_observations_once:
  "(filter is_get_observations (trace (firebase_run conditions kw w fuel)) =
     (if \<exists>l. outcome (firebase_run conditions kw w fuel) = Returned l
      then [Get_observations ''autora'' (firebase_credentials kw)] else []) \<and>
   (\<forall>n. Suc n < length (ticks (firebase_run conditions kw w fuel)) \<longrightarrow>
      filter is_get_observations (ticks (firebase_run conditions kw w fuel) ! n) = []) \<and>
   (\<forall>l. outcome (firebase_run conditions kw w fuel) = Returned l \<longrightarrow>
      (\<exists>k. length (ticks (firebase_run conditions kw w fuel)) = Suc k \<and>
           host_finished w k \<and> (\<forall>m<k. \<not> host_finished w m) \<and>
           filter is_get_observations (ticks (firebase_run conditions kw w fuel) ! k) =
             [Get_observations ''autora'' (firebase_credentials kw)]))) \<and>
   ((\<forall>n. n < length (ticks (firebase_run conditions kw w fuel)) \<and> host_finished w n \<longrightarrow>
      filter is_get_observations (ticks (firebase_run conditions kw w fuel) ! n) =
        [Get_observations ''autora'' (firebase_credentials kw)] \<and>
      length (ticks (firebase_run conditions kw w fuel)) = Suc n \<and>
      outcome (firebase_run conditions kw w fuel) =
        Returned (sorted_values (get_observations_answer w n))) \<and>
   (\<forall>n. n < fuel \<and> host_finished w n \<and> (\<forall>m<n. \<not> host_finished w m) \<and>
        (n = 0 \<or> time_sleep (sleep_time kw) = None) \<longrightarrow>
      length (ticks (firebase_run conditions kw w fuel)) = Suc n \<and>
      filter is_get_observations (trace (firebase_run conditions kw w fuel)) =
        [Get_observations ''autora'' (firebase_credentials kw)])) \<and>
   (filter is_get_observations (trace (firebase_prolific_run conditions kw w fuel)) =
     (if \<exists>l. outcome (firebase_prolific_run conditions kw w fuel) = Returned l
      then [Get_observations ''autora'' (firebase_credentials kw)] else []) \<and>
   (\<forall>n. Suc n < length (ticks (firebase_prolific_run conditions kw w fuel)) \<longrightarrow>
      filter is_get_observations (ticks (firebase_prolific_run conditions kw w fuel) ! n) = []) \<and>
   (\<forall>l. outcome (firebase_prolific_run conditions kw w fuel) = Returned l \<longrightarrow>
      (\<exists>k. length (ticks (firebase_prolific_run conditions kw w fuel)) = Suc k \<and>
           (submissions_reached w k \<and> host_finished w k) \<and>
           (\<forall>m<k. \<not> (submissions_reached w m \<and> host_finished w m)) \<and>
           filter is_get_observations (ticks (firebase_prolific_run conditions kw w fuel) ! k) =
             [Get_observations ''autora'' (firebase_credentials kw)]))) \<and>
   ((\<forall>n. n < length (ticks (firebase_prolific_run conditions kw w fuel)) \<and>
        (submissions_reached w n \<and> host_finished w n) \<longrightarrow>
      filter is_get_observations (ticks (firebase_prolific_run conditions kw w fuel) ! n) =
        [Get_observations ''autora'' (firebase_credentials kw)] \<and>
      length (ticks (firebase_prolific_run conditions kw w fuel)) = Suc n \<and>
      outcome (firebase_prolific_run conditions kw w fuel) =
        Returned (sorted_values (get_observations_answer w n))) \<and>
   (\<forall>t i n. campaign_specification (setup_study_answer w) = Inr (t, i) \<and> n < fuel \<and>
        (submissions_reached w n \<and> host_finished w n) \<and>
        (\<forall>m<n. \<not> (submissions_reached w m \<and> host_finished w m)) \<and>
        (n = 0 \<or> time_sleep (sleep_time kw) = None) \<longrightarrow>
      length (ticks (firebase_prolific_run conditions kw w fuel)) = Suc n \<and>
      filter is_get_observations (trace (firebase_prolific_run conditions kw w fuel)) =
        [Get_observations ''autora'' (firebase_credentials kw)]))"
  by (rule conjI [OF firebase_fetch_once conjI [OF firebase_fetch_at_completion
        conjI [OF prolific_fetch_once prolific_fetch_at_completion]]])

theorem fetch_observations_once_witness:
  "2 < (3::nat) \<and> host_finished example_world 2 \<and>
   time_sleep (sleep_time example_kwargs) = None \<and>
   length (ticks (firebase_run [PStr ''a'', PStr ''b''] example_kwargs example_world 3)) = 3 \<and>
   filter is_get_observations
     (trace (firebase_run [PStr ''a'', PStr ''b''] example_kwargs example_world 3)) =
     [Get_observations ''autora'' (PStr ''cred'')] \<and>
   Suc 0 < length (ticks (firebase_prolific_run [PStr ''a'', PStr ''b''] example_kwargs
                            example_world 3)) \<and>
   filter is_get_observations
     (ticks (firebase_prolific_run [PStr ''a'', PStr ''b''] example_kwargs example_world 3) ! 0)
     = []"
proof -
  have h: "2 < (3::nat) \<and> host_finished example_world 2 \<and>
           (\<forall>m<2. \<not> host_finished example_world m) \<and>
           (2 = (0::nat) \<or> time_sleep (sleep_time example_kwargs) = None)"
    by (simp add: host_finished_def example_world_def example_kwargs_def)
  have len: "Suc 0 < length (ticks (firebase_prolific_run [PStr ''a'', PStr ''b'']
                                     example_kwargs example_world 3))"
    by (simp add: example_prolific_run)
  note inst = fetch_observations_once
    [of "[PStr ''a'', PStr ''b'']" example_kwargs example_world 3]
  from inst [THEN conjunct2, THEN conjunct1, THEN conjunct2, rule_format, OF h]
  have "length (ticks (firebase_run [PStr ''a'', PStr ''b''] example_kwargs
                         example_world 3)) = Suc 2 \<and>
        filter is_get_observations
          (trace (firebase_run [PStr ''a'', PStr ''b''] example_kwargs example_world 3)) =
          [Get_observations ''autora'' (firebase_credentials example_kwargs)]" .
  then have one: "length (ticks (firebase_run [PStr ''a'', PStr ''b''] example_kwargs
                         example_world 3)) = 3"
    "filter is_get_observations
          (trace (firebase_run [PStr ''a'', PStr ''b''] example_kwargs example_world 3)) =
          [Get_observations ''autora'' (PStr ''cred'')]"
    by (simp_all add: example_kwargs_def)
  from inst [THEN conjunct2, THEN conjunct2, THEN conjunct1, THEN conjunct2, THEN conjunct1,
      rule_format, OF len]
  have "filter is_get_observations
     (ticks (firebase_prolific_run [PStr ''a'', PStr ''b''] example_kwargs example_world 3) ! 0)
     = []" .
  with h one len show ?thesis by simp
qed

text \<open>
  Claim C8 as stated: when completion is detected and the number of entries of the fetched
  mapping differs from the number of submitted conditions, the run raises an error instead
  of returning. The runners make no such comparison: with two conditions submitted and one
  observation fetched, both return the one observation.
\<close>

theorem returns_whatever_the_count_counterexample:
  "length [PStr ''a'', PStr ''b''] \<noteq> length (get_observations_answer short_world 0) \<and>
   host_finished short_world 0 \<and> submissions_reached short_world 0 \<and>
   outcome (firebase_run [PStr ''a'', PStr ''b''] example_kwargs short_world 1) =
     Returned [PStr ''X''] \<and>
   outcome (firebase_prolific_run [PStr ''a'', PStr ''b''] example_kwargs short_world 1) =
     Returned [PStr ''X'']"
proof -
  have "length [PStr ''a'', PStr ''b''] \<noteq> length (get_observations_answer short_world 0)"
    and "host_finished short_world 0" and "submissions_reached short_world 0"
    by (simp_all add: short_world_def host_finished_def submissions_reached_def)
  moreover
  have "outcome (firebase_run [PStr ''a'', PStr ''b''] example_kwargs short_world 1) =
          Returned [PStr ''X'']"
    by (simp only: short_firebase_run run.simps)
  moreover
  have "outcome (firebase_prolific_run [PStr ''a'', PStr ''b''] example_kwargs short_world 1) =
          Returned [PStr ''X'']"
    by (simp only: short_prolific_run run.simps)
  ultimately show ?thesis by blast
qed

text \<open>
  Claim C8, amended. When completion is detected but the number of entries of the fetched
  observation mapping does not equal the number of submitted conditions, the run returns
  the observation sequence, that is the values of the fetched mapping in sorted key order,
  one for each entry; it makes no comparison of the two numbers.
\<close>

theorem returns_whatever_the_count:
  "(n < length (ticks (firebase_run conditions kw w fuel)) \<and> host_finished w n \<and>
    length (get_observations_answer w n) \<noteq> length conditions \<longrightarrow>
      outcome (firebase_run conditions kw w fuel) =
        Returned (sorted_values (get_observations_answer w n))) \<and>
   (n < length (ticks (firebase_prolific_run conditions kw w fuel)) \<and>
    (submissions_reached w n \<and> host_finished w n) \<and>
    length (get_observations_answer w n) \<noteq> length conditions \<longrightarrow>
      outcome (firebase_prolific_run conditions kw w fuel) =
        Returned (sorted_values (get_observations_answer w n))) \<and>
   length (sorted_values (get_observations_answer w n)) =
     length (get_observations_answer w n)"
proof (intro conjI impI)
  assume a: "n < length (ticks (firebase_run conditions kw w fuel)) \<and> host_finished w n \<and>
    length (get_observations_answer w n) \<noteq> length conditions"
  then have "n < length (ticks (firebase_run conditions kw w fuel))" "host_finished w n"
    by simp_all
  then have "firebase_run conditions kw w fuel =
           \<lparr>setup_calls = firebase_setup conditions kw,
            ticks = map (firebase_tick kw w) [0..<Suc n],
            outcome = Returned (sorted_values (get_observations_answer w n))\<rparr>"
    by (rule firebase_run_completes)
  then show "outcome (firebase_run conditions kw w fuel) =
        Returned (sorted_values (get_observations_answer w n))"
    by simp
next
  assume a: "n < length (ticks (firebase_prolific_run conditions kw w fuel)) \<and>
    (submissions_reached w n \<and> host_finished w n) \<and>
    length (get_observations_answer w n) \<noteq> length conditions"
  then have n: "n < length (ticks (firebase_prolific_run conditions kw w fuel))"
    and c: "submissions_reached w n \<and> host_finished w n"
    by simp_all
  from n obtain t i where spec: "campaign_specification (setup_study_answer w) = Inr (t, i)"
    by (rule prolific_run_reaches_loop)
  from spec n c have "firebase_prolific_run conditions kw w fuel =
           \<lparr>setup_calls = prolific_setup conditions kw,
            ticks = map (prolific_tick kw w t i) [0..<Suc n],
            outcome = Returned (sorted_values (get_observations_answer w n))\<rparr>"
    by (rule prolific_run_completes)
  then show "outcome (firebase_prolific_run conditions kw w fuel) =
        Returned (sorted_values (get_observations_answer w n))"
    by simp
next
  show "length (sorted_values (get_observations_answer w n)) =
     length (get_observations_answer w n)"
    by (rule length_sorted_values)
qed

theorem returns_whatever_the_count_witness:
  "0 < length (ticks (firebase_run [PStr ''a'', PStr ''b''] example_kwargs short_world 1)) \<and>
   0 < length (ticks (firebase_prolific_run [PStr ''a'', PStr ''b''] example_kwargs
                        short_world 1)) \<and>
   host_finished short_world 0 \<and> submissions_reached short_world 0 \<and>
   length (get_observations_answer short_world 0) \<noteq> length [PStr ''a'', PStr ''b''] \<and>
   outcome (firebase_run [PStr ''a'', PStr ''b''] example_kwargs short_world 1) =
     Returned (sorted_values (get_observations_answer short_world 0)) \<and>
   outcome (firebase_prolific_run [PStr ''a'', PStr ''b''] example_kwargs short_world 1) =
     Returned (sorted_values (get_observations_answer short_world 0))"
proof -
  have t1: "0 < length (ticks (firebase_run [PStr ''a'', PStr ''b''] example_kwargs
                                 short_world 1))"
    by (simp only: short_firebase_run run.simps) simp
  have t2: "0 < length (ticks (firebase_prolific_run [PStr ''a'', PStr ''b''] example_kwargs
                                 short_world 1))"
    by (simp only: short_prolific_run run.simps) simp
  have h: "host_finished short_world 0" "submissions_reached short_world 0"
    "length (get_observations_answer short_world 0) \<noteq> length [PStr ''a'', PStr ''b'']"
    by (simp_all add: short_world_def host_finished_def submissions_reached_def)
  note inst = returns_whatever_the_count
    [of 0 "[PStr ''a'', PStr ''b'']" example_kwargs short_world 1]
  from inst [THEN conjunct1] t1 h
  have r1: "outcome (firebase_run [PStr ''a'', PStr ''b''] example_kwargs short_world 1) =
     Returned (sorted_values (get_observations_answer short_world 0))"
    by blast
  from inst [THEN conjunct2, THEN conjunct1] t2 h
  have r2: "outcome (firebase_prolific_run [PStr ''a'', PStr ''b''] example_kwargs
                       short_world 1) =
     Returned (sorted_values (get_observations_answer short_world 0))"
    by blast
  from t1 t2 h r1 r2 show ?thesis by blast
qed

section \<open>The recruiter status is assigned before it is read (C9)\<close>

text \<open>
  Claim C9. A combined-mode run that reaches its poll loop has a truthy answer of
  \<^verbatim>\<open>setup_study\<close>: with a falsy one the lookup of \<open>maximum_allowed_time\<close> has
  already raised, and no tick is run. So the test \<^verbatim>\<open>if prolific_dict:\<close> succeeds on
  every tick, every tick reads the recruiter status right after the host status, and the
  read of an unassigned \<^verbatim>\<open>check_prolific\<close> in the available and unavailable
  branches never happens: no run raises \<open>UnboundLocalError\<close>.
\<close>

theorem recruiter_status_always_assigned:
  "(campaign_specification (setup_study_answer w) = Inr (t, i) \<longrightarrow>
      truthy (setup_study_answer w)) \<and>
   (\<not> truthy (setup_study_answer w) \<longrightarrow>
      ticks (firebase_prolific_run conditions kw w fuel) = [] \<and>
      (outcome (firebase_prolific_run conditions kw w fuel) = Raised KeyError \<or>
       outcome (firebase_prolific_run conditions kw w fuel) = Raised TypeError)) \<and>
   outcome (firebase_prolific_run conditions kw w fuel) \<noteq> Raised UnboundLocalError \<and>
   (\<forall>n<length (ticks (firebase_prolific_run conditions kw w fuel)).
      truthy (setup_study_answer w) \<and>
      (\<exists>t' i'. take 2 (ticks (firebase_prolific_run conditions kw w fuel) ! n) =
         [Check_firebase_status ''autora'' (firebase_credentials kw) t',
          Check_prolific_status i' (prolific_token kw)]))"
proof (intro conjI)
  show "campaign_specification (setup_study_answer w) = Inr (t, i) \<longrightarrow>
      truthy (setup_study_answer w)"
    using campaign_specification_truthy by blast
next
  have "ticks (firebase_prolific_run conditions kw w fuel) = [] \<and>
      (outcome (firebase_prolific_run conditions kw w fuel) = Raised KeyError \<or>
       outcome (firebase_prolific_run conditions kw w fuel) = Raised TypeError)"
    if falsy: "\<not> truthy (setup_study_answer w)"
  proof (cases rule: prolific_run_cases [of w conditions kw fuel])
    case (Raised e)
    from campaign_specification_error [OF Raised(1)] Raised(2) show ?thesis by auto
  next
    case (Polling t' i')
    with falsy campaign_specification_truthy show ?thesis by blast
  next
    case (Returned t' i' k)
    with falsy campaign_specification_truthy show ?thesis by blast
  next
    case (Slept t' i' e)
    with falsy campaign_specification_truthy show ?thesis by blast
  qed
  then show "\<not> truthy (setup_study_answer w) \<longrightarrow>
      ticks (firebase_prolific_run conditions kw w fuel) = [] \<and>
      (outcome (firebase_prolific_run conditions kw w fuel) = Raised KeyError \<or>
       outcome (firebase_prolific_run conditions kw w fuel) = Raised TypeError)"
    by blast
next
  show "outcome (firebase_prolific_run conditions kw w fuel) \<noteq> Raised UnboundLocalError"
  proof
    assume "outcome (firebase_prolific_run conditions kw w fuel) = Raised UnboundLocalError"
    then have "campaign_specification (setup_study_answer w) = Inl UnboundLocalError \<or>
               time_sleep (sleep_time kw) = Some UnboundLocalError"
      by (rule prolific_run_raised)
    then show False
    proof
      assume "campaign_specification (setup_study_answer w) = Inl UnboundLocalError"
      from campaign_specification_error [OF this] show False by simp
    next
      assume "time_sleep (sleep_time kw) = Some UnboundLocalError"
      from time_sleep_error [OF this] show False by simp
    qed
  qed
next
  show "\<forall>n<length (ticks (firebase_prolific_run conditions kw w fuel)).
      truthy (setup_study_answer w) \<and>
      (\<exists>t' i'. take 2 (ticks (firebase_prolific_run conditions kw w fuel) ! n) =
         [Check_firebase_status ''autora'' (firebase_credentials kw) t',
          Check_prolific_status i' (prolific_token kw)])"
  proof (intro allI impI)
    fix n
    assume n: "n < length (ticks (firebase_prolific_run conditions kw w fuel))"
    then obtain t' i'
      where s: "campaign_specification (setup_study_answer w) = Inr (t', i')"
      by (rule prolific_run_reaches_loop)
    have "take 2 (ticks (firebase_prolific_run conditions kw w fuel) ! n) =
         [Check_firebase_status ''autora'' (firebase_credentials kw) t',
          Check_prolific_status i' (prolific_token kw)]"
      by (simp add: prolific_run_tick [OF s n] prolific_tick_def)
    with campaign_specification_truthy [OF s]
    show "truthy (setup_study_answer w) \<and>
      (\<exists>t' i'. take 2 (ticks (firebase_prolific_run conditions kw w fuel) ! n) =
         [Check_firebase_status ''autora'' (firebase_credentials kw) t',
          Check_prolific_status i' (prolific_token kw)])"
      by blast
  qed
qed

theorem recruiter_status_always_assigned_witness:
  "campaign_specification (setup_study_answer example_world) = Inr (PInt 420, PStr ''s1'') \<and>
   truthy (setup_study_answer example_world) \<and>
   \<not> truthy (setup_study_answer failed_setup_world) \<and>
   ticks (firebase_prolific_run [PStr ''a'', PStr ''b''] example_kwargs failed_setup_world 3)
     = [] \<and>
   outcome (firebase_prolific_run [PStr ''a'', PStr ''b''] example_kwargs failed_setup_world 3)
     = Raised TypeError"
proof -
  have h1: "campaign_specification (setup_study_answer example_world) =
              Inr (PInt 420, PStr ''s1'')"
    by (rule example_specification)
  have h2: "\<not> truthy (setup_study_answer failed_setup_world)"
    by (simp add: failed_setup_world_def)
  have out: "outcome (firebase_prolific_run [PStr ''a'', PStr ''b''] example_kwargs
                        failed_setup_world 3) = Raised TypeError"
    by (simp add: failed_setup_run)
  from recruiter_status_always_assigned
    [of example_world "PInt 420" "PStr ''s1''" "[PStr ''a'', PStr ''b'']" example_kwargs 3] h1
  have t: "truthy (setup_study_answer example_world)" by blast
  from recruiter_status_always_assigned
    [of failed_setup_world "PInt 420" "PStr ''s1''" "[PStr ''a'', PStr ''b'']"
        example_kwargs 3] h2
  have "ticks (firebase_prolific_run [PStr ''a'', PStr ''b''] example_kwargs
                 failed_setup_world 3) = []"
    by blast
  with h1 h2 out t show ?thesis by blast
qed

section \<open>The namespace of the host (C10)\<close>

text \<open>
  Claim C10. Every call to the host client in a run of either runner, that is
  \<^verbatim>\<open>send_conditions\<close>, \<^verbatim>\<open>check_firebase_status\<close> and
  \<^verbatim>\<open>get_observations\<close>, passes the namespace \<open>"autora"\<close>, whatever the
  configuration.
\<close>

theorem host_namespace_is_autora:
  "(\<forall>c\<in>set (trace (firebase_run conditions kw w fuel)).
      \<forall>ns. host_namespace c = Some ns \<longrightarrow> ns = ''autora'') \<and>
   (\<forall>c\<in>set (trace (firebase_prolific_run conditions kw w fuel)).
      \<forall>ns. host_namespace c = Some ns \<longrightarrow> ns = ''autora'')"
proof (intro conjI ballI)
  fix c
  assume "c \<in> set (trace (firebase_run conditions kw w fuel))"
  then show "\<forall>ns. host_namespace c = Some ns \<longrightarrow> ns = ''autora''"
    using firebase_trace_mem firebase_setup_host firebase_tick_host by blast
next
  fix c
  assume "c \<in> set (trace (firebase_prolific_run conditions kw w fuel))"
  then show "\<forall>ns. host_namespace c = Some ns \<longrightarrow> ns = ''autora''"
    using prolific_trace_mem prolific_setup_host prolific_tick_host by blast
qed

theorem host_namespace_is_autora_witness:
  "trace (firebase_prolific_run [PStr ''a'', PStr ''b''] example_kwargs example_world 3) ! 11
     \<in> set (trace (firebase_prolific_run [PStr ''a'', PStr ''b''] example_kwargs
                     example_world 3)) \<and>
   host_namespace
     (trace (firebase_prolific_run [PStr ''a'', PStr ''b''] example_kwargs example_world 3)
        ! 11) = Some ''autora''"
proof -
  have tr: "trace (firebase_prolific_run [PStr ''a'', PStr ''b''] example_kwargs
                     example_world 3) ! 11 = Get_observations ''autora'' (PStr ''cred'')"
    by (simp add: example_prolific_run trace_def)
  have mem: "trace (firebase_prolific_run [PStr ''a'', PStr ''b''] example_kwargs
                      example_world 3) ! 11
               \<in> set (trace (firebase_prolific_run [PStr ''a'', PStr ''b''] example_kwargs
                               example_world 3))"
    by (rule nth_mem) (simp add: example_prolific_run trace_def)
  have ns: "\<exists>ns. host_namespace
              (trace (firebase_prolific_run [PStr ''a'', PStr ''b''] example_kwargs
                        example_world 3) ! 11) = Some ns"
    by (simp add: tr)
  from host_namespace_is_autora
    [of "[PStr ''a'', PStr ''b'']" example_kwargs example_world 3] mem ns
  have "host_namespace
          (trace (firebase_prolific_run [PStr ''a'', PStr ''b''] example_kwargs
                    example_world 3) ! 11) = Some ''autora''"
    by blast
  with mem show ?thesis by simp
qed

end
